theory Spec2Isabelle
  imports Main "HOL-Library.Word" "HOL-Library.Code_Target_Numeral"
begin

unbundle bit_operations_syntax

section \<open>Values of the Go program\<close>

text \<open>
  Strings are byte strings (\<open>char list\<close>), as Go's are. The functions of the Go
  standard library that the program calls on text (\<open>strings\<close>, \<open>regexp\<close>,
  \<open>strconv\<close>, \<open>bufio\<close>) are modelled on ASCII input: on bytes beyond 127 Go decodes
  UTF-8 runes, which the model does not.
\<close>

type_synonym byte = "8 word"

subsection \<open>Errors\<close>

text \<open>
  Every error value the program builds. \<open>Errorf\<close> keeps the format and its arguments
  apart, so that \<open>%q\<close> and \<open>%v\<close> need no model.
\<close>

datatype numerr = ErrSyntax | ErrRange

datatype error =
    PeerNotFound
  | ClientNotFoundErr
  | ClientNameExistsErr
  | ParseError string string
  | NumError string string numerr
  | Errorf string "string list"
  | IoError error string
  | PathError string string

subsection \<open>Keys\<close>

text \<open>
  \<open>type Key [KeyLength]byte\<close>: a list of bytes; the values the program builds have
  length 32. \<open>IsZero\<close> compares with the zero array through
  \<open>subtle.ConstantTimeCompare\<close>, which is 1 exactly on equal slices of equal length.
\<close>

type_synonym Key = "byte list"

definition KeyLength :: nat where
  "KeyLength = 32"

definition zeroKey :: Key where
  "zeroKey = replicate KeyLength 0"

definition ConstantTimeCompare :: "byte list \<Rightarrow> byte list \<Rightarrow> int" where
  "ConstantTimeCompare x y = (if length x \<noteq> length y then 0 else if x = y then 1 else 0)"

definition IsZero :: "Key \<Rightarrow> bool" where
  "IsZero k = (ConstantTimeCompare zeroKey k = 1)"

subsection \<open>Addresses and prefixes (net/netip)\<close>

text \<open>
  \<open>netip.Addr\<close> is a 128-bit value and a tag: \<open>z0\<close> for the zero \<open>Addr\<close>, \<open>z4\<close>
  for IPv4 (the address in the low 32 bits under the prefix \<open>ffff\<close>), \<open>z6 zone\<close> for
  IPv6 (\<open>z6 []\<close> without a zone). \<open>netip.Prefix\<close> is an address and the
  prefix length plus one in a byte, 0 for the invalid prefix.
\<close>

datatype zone = z0 | z4 | z6 string

record Addr =
  addr :: "128 word"
  z :: zone

record Prefix =
  ip :: Addr
  bitsPlusOne :: "8 word"

subsection \<open>The configuration (pkg/wireguard/config.go)\<close>

record Endpoint =
  Host :: string
  Port :: "16 word"

record Interface =
  PrivateKey :: Key
  Addresses :: "Prefix list"
  ListenPort :: "16 word"
  MTU :: "16 word"
  DNS :: "Addr list"
  DNSSearch :: "string list"
  PreUp :: string
  PostUp :: string
  PreDown :: string
  PostDown :: string
  TableOff :: bool

record Peer =
  Name :: string
  Disabled :: bool
  PublicKey :: Key
  PresharedKey :: Key
  AllowedIPs :: "Prefix list"
  Endpoint :: Endpoint
  PersistentKeepalive :: "16 word"

record Config =
  Name :: string
  Interface :: Interface
  Peers :: "Peer list"

text \<open>The zero values \<open>Addr{}\<close>, \<open>Endpoint{}\<close>, \<open>Interface{}\<close> and \<open>Peer{}\<close>.\<close>

definition zeroAddr :: Addr where
  "zeroAddr = \<lparr>addr = 0, z = z0\<rparr>"

definition zeroEndpoint :: Endpoint where
  "zeroEndpoint = \<lparr>Host = [], Port = 0\<rparr>"

definition zeroInterface :: Interface where
  "zeroInterface = \<lparr>PrivateKey = zeroKey, Addresses = [], ListenPort = 0, MTU = 0,
     DNS = [], DNSSearch = [], PreUp = [], PostUp = [], PreDown = [], PostDown = [],
     TableOff = False\<rparr>"

definition zeroPeer :: Peer where
  "zeroPeer = \<lparr>Peer.Name = [], Peer.Disabled = False, PublicKey = zeroKey,
     PresharedKey = zeroKey, AllowedIPs = [], Endpoint = zeroEndpoint,
     PersistentKeepalive = 0\<rparr>"

section \<open>The Go standard library, as far as the program calls it\<close>

subsection \<open>strings\<close>

definition HasPrefix :: "string \<Rightarrow> string \<Rightarrow> bool" where
  "HasPrefix s pre = (take (length pre) s = pre)"

text \<open>\<open>strings.Cut(s, sep)\<close>: the text before and after the first \<open>sep\<close>, and whether
  there is one; \<open>(s, "", false)\<close> when there is none.\<close>

fun Cut :: "string \<Rightarrow> string \<Rightarrow> string \<times> string \<times> bool" where
  "Cut [] sep = ([], [], sep = [])"
| "Cut (c # s) sep =
     (if HasPrefix (c # s) sep then ([], drop (length sep) (c # s), True)
      else (case Cut s sep of (before, after, found) \<Rightarrow> (c # before, after, found)))"

text \<open>\<open>strings.IndexByte\<close> and \<open>strings.LastIndexByte\<close>: -1 when the byte is absent.\<close>

fun IndexByte :: "string \<Rightarrow> char \<Rightarrow> int" where
  "IndexByte [] c = -1"
| "IndexByte (x # s) c =
     (if x = c then 0 else (let i = IndexByte s c in if i < 0 then -1 else i + 1))"

fun LastIndexByte :: "string \<Rightarrow> char \<Rightarrow> int" where
  "LastIndexByte [] c = -1"
| "LastIndexByte (x # s) c =
     (let i = LastIndexByte s c in if 0 \<le> i then i + 1 else if x = c then 0 else -1)"

text \<open>\<open>unicode.IsSpace\<close> on ASCII: tab, line feed, vertical tab, form feed, carriage
  return, space.\<close>

definition isSpace :: "char \<Rightarrow> bool" where
  "isSpace c = (c \<in> set [CHR 0x09, CHR 0x0A, CHR 0x0B, CHR 0x0C, CHR 0x0D, CHR '' ''])"

definition TrimSpace :: "string \<Rightarrow> string" where
  "TrimSpace s = rev (dropWhile isSpace (rev (dropWhile isSpace s)))"

definition toLower :: "char \<Rightarrow> char" where
  "toLower c =
     (case map_of (zip ''ABCDEFGHIJKLMNOPQRSTUVWXYZ'' ''abcdefghijklmnopqrstuvwxyz'') c of
        Some l \<Rightarrow> l | None \<Rightarrow> c)"

definition ToLower :: "string \<Rightarrow> string" where
  "ToLower s = map toLower s"

text \<open>\<open>strings.Split\<close> (and \<open>SplitSeq\<close>) on a one-byte separator: one piece more than
  there are separators, so the empty string gives one empty piece.\<close>

fun Split :: "string \<Rightarrow> char \<Rightarrow> string list" where
  "Split [] sep = [[]]"
| "Split (x # s) sep =
     (if x = sep then [] # Split s sep
      else (case Split s sep of [] \<Rightarrow> [[x]] | piece # pieces \<Rightarrow> (x # piece) # pieces))"

fun Join :: "string list \<Rightarrow> string \<Rightarrow> string" where
  "Join [] sep = []"
| "Join [x] sep = x"
| "Join (x # y # xs) sep = x @ sep @ Join (y # xs) sep"

subsection \<open>regexp\<close>

text \<open>
  The regular expressions of the program, each as the function that decides it.
  \<open>\s\<close> is \<open>[\t\n\f\r ]\<close>; \<open>$\<close> is the end of the text. The class
  \<open>[a-zA-Z0-9.@_-]\<close> has no space, so in \<open>^## begin ([a-zA-Z0-9.@_-]+) ###\s*$\<close> the
  group is the longest run of the class after \<open>## begin \<close>.
\<close>

definition reSpace :: "char \<Rightarrow> bool" where
  "reSpace c = (c \<in> set [CHR 0x09, CHR 0x0A, CHR 0x0C, CHR 0x0D, CHR '' ''])"

definition isDigit :: "char \<Rightarrow> bool" where
  "isDigit c = (48 \<le> (of_char c :: nat) \<and> (of_char c :: nat) \<le> 57)"

definition isAlnum :: "char \<Rightarrow> bool" where
  "isAlnum c = (isDigit c \<or> (65 \<le> (of_char c :: nat) \<and> (of_char c :: nat) \<le> 90)
     \<or> (97 \<le> (of_char c :: nat) \<and> (of_char c :: nat) \<le> 122))"

definition nameChar :: "char \<Rightarrow> bool" where
  "nameChar c = (isAlnum c \<or> c \<in> set ''.@_-'')"

definition markerRegex :: "string \<Rightarrow> string \<Rightarrow> string option" where
  "markerRegex word s =
     (if HasPrefix s (''## '' @ word @ '' '') then
        (let r = drop (length (''## '' @ word @ '' '')) s;
             name = takeWhile nameChar r;
             tail = dropWhile nameChar r
         in if name \<noteq> [] \<and> HasPrefix tail '' ###'' \<and> list_all reSpace (drop 4 tail)
            then Some name else None)
      else None)"

text \<open>\<open>beginRegex.FindStringSubmatch(s)\<close>, as the first group of the match.\<close>

definition beginRegex :: "string \<Rightarrow> string option" where
  "beginRegex s = markerRegex ''begin'' s"

text \<open>\<open>^(\[disabled] #)?## begin ([a-zA-Z0-9.@_-]+) ###\s*$\<close>, as \<open>MatchString\<close>.\<close>

definition beginWithDisabledRegex :: "string \<Rightarrow> bool" where
  "beginWithDisabledRegex s =
     (beginRegex s \<noteq> None
      \<or> (HasPrefix s ''[disabled] #'' \<and> beginRegex (drop (length ''[disabled] #'') s) \<noteq> None))"

definition endRegex :: "string \<Rightarrow> bool" where
  "endRegex s = (markerRegex ''end'' s \<noteq> None)"

text \<open>\<open>spacesRE.Split(s, -1)\<close> with \<open>spacesRE = \s+\<close>: the pieces between the runs of
  white space, an empty piece before a leading run and after a trailing one.\<close>

fun spacesRE_Split :: "string \<Rightarrow> string list" where
  "spacesRE_Split [] = [[]]"
| "spacesRE_Split (c # s) =
     (if reSpace c then
        (if s \<noteq> [] \<and> reSpace (hd s) then spacesRE_Split s else [] # spacesRE_Split s)
      else (case spacesRE_Split s of [] \<Rightarrow> [[c]] | piece # pieces \<Rightarrow> (c # piece) # pieces))"

subsection \<open>bufio.Scanner\<close>

text \<open>
  The scanner splits at line feeds, drops one carriage return from the end of a line,
  and gives no line for the empty text after the last line feed. A line of 65536 bytes
  or more does not fit its buffer: \<open>Scan\<close> returns false there, and the program never
  asks \<open>scanner.Err()\<close>, so it reads such a line as the end of the input.
\<close>

fun rawLines :: "string \<Rightarrow> string list" where
  "rawLines [] = []"
| "rawLines (c # s) =
     (if c = CHR 0x0A then [] # rawLines s
      else (case rawLines s of [] \<Rightarrow> [[c]] | l # ls \<Rightarrow> (c # l) # ls))"

definition dropCR :: "string \<Rightarrow> string" where
  "dropCR l = (if l \<noteq> [] \<and> last l = CHR 0x0D then butlast l else l)"

definition MaxScanTokenSize :: nat where
  "MaxScanTokenSize = 64 * 1024"

definition scanLines :: "string \<Rightarrow> string list" where
  "scanLines input = map dropCR (takeWhile (\<lambda>l. length l < MaxScanTokenSize) (rawLines input))"

subsection \<open>strconv and fmt\<close>

definition digitVal :: "char \<Rightarrow> nat" where
  "digitVal c = of_char c - 48"

text \<open>\<open>strconv.ParseUint(s, 10, bitSize)\<close>, by its loop: the first byte that is no digit
  is a syntax error, the first digit that takes the value beyond the size a range error.\<close>

fun parseUintLoop :: "string \<Rightarrow> nat \<Rightarrow> nat \<Rightarrow> numerr + nat" where
  "parseUintLoop [] n maxVal = Inr n"
| "parseUintLoop (c # s) n maxVal =
     (if \<not> isDigit c then Inl ErrSyntax
      else if n * 10 + digitVal c > maxVal then Inl ErrRange
      else parseUintLoop s (n * 10 + digitVal c) maxVal)"

definition ParseUint :: "string \<Rightarrow> nat \<Rightarrow> numerr + nat" where
  "ParseUint s bitSize = (if s = [] then Inl ErrSyntax else parseUintLoop s 0 (2 ^ bitSize - 1))"

text \<open>\<open>strconv.ParseInt(s, 10, 64)\<close>: an optional sign, then \<open>ParseUint\<close>.\<close>

definition ParseInt :: "string \<Rightarrow> numerr + int" where
  "ParseInt s =
     (if s = [] then Inl ErrSyntax
      else let neg = (hd s = CHR ''-'');
               s' = (if hd s = CHR ''+'' \<or> hd s = CHR ''-'' then tl s else s)
           in case ParseUint s' 64 of
                Inl e \<Rightarrow> Inl e
              | Inr un \<Rightarrow>
                  if \<not> neg \<and> un \<ge> 2 ^ 63 then Inl ErrRange
                  else if neg \<and> un > 2 ^ 63 then Inl ErrRange
                  else Inr (if neg then - int un else int un))"

text \<open>\<open>strconv.Atoi\<close> is \<open>ParseInt(s, 10, 0)\<close> on a 64-bit platform, its short-input
  path included.\<close>

definition Atoi :: "string \<Rightarrow> error + int" where
  "Atoi s = (case ParseInt s of Inl e \<Rightarrow> Inl (NumError ''Atoi'' s e) | Inr i \<Rightarrow> Inr i)"

text \<open>The verb \<open>%d\<close>, and the widths of \<open>%-15s\<close>, \<open>%44s\<close> and \<open>%10d\<close>.\<close>

fun natDigits :: "nat \<Rightarrow> string" where
  "natDigits n =
     (if n < 10 then [''0123456789'' ! n]
      else natDigits (n div 10) @ [''0123456789'' ! (n mod 10)])"

declare natDigits.simps [simp del]

definition fmtInt :: "int \<Rightarrow> string" where
  "fmtInt i = (if i < 0 then CHR ''-'' # natDigits (nat (- i)) else natDigits (nat i))"

definition padLeft :: "nat \<Rightarrow> string \<Rightarrow> string" where
  "padLeft w s = replicate (w - length s) (CHR '' '') @ s"

definition padRight :: "nat \<Rightarrow> string \<Rightarrow> string" where
  "padRight w s = s @ replicate (w - length s) (CHR '' '')"

subsection \<open>encoding/base64\<close>

text \<open>
  \<open>base64.StdEncoding\<close>: the standard alphabet, padding with \<open>=\<close>, not strict. The
  three bytes of a group are the number \<open>v\<close> below, and its four characters are the
  base-64 digits of \<open>v\<close>. The decoder skips every carriage return and line feed, wants
  whole groups of four, takes \<open>=\<close> only as the last or the two last characters of the
  last group, and does not look at the bits of the last digit that the padding cuts.
\<close>

definition encodeStd :: string where
  "encodeStd = ''ABCDEFGHIJKLMNOPQRSTUVWXYZabcdefghijklmnopqrstuvwxyz0123456789+/''"

definition encChar :: "nat \<Rightarrow> char" where
  "encChar i = encodeStd ! i"

definition decodeMap :: "char \<Rightarrow> nat option" where
  "decodeMap c =
     (let n = (of_char c :: nat) in
      if 65 \<le> n \<and> n \<le> 90 then Some (n - 65)
      else if 97 \<le> n \<and> n \<le> 122 then Some (n - 71)
      else if 48 \<le> n \<and> n \<le> 57 then Some (n + 4)
      else if c = CHR ''+'' then Some 62
      else if c = CHR ''/'' then Some 63
      else None)"

fun EncodeToString :: "byte list \<Rightarrow> string" where
  "EncodeToString [] = []"
| "EncodeToString [a] =
     (let v = unat a * 65536
      in [encChar (v div 262144), encChar (v div 4096 mod 64), CHR ''='', CHR ''=''])"
| "EncodeToString [a, b] =
     (let v = unat a * 65536 + unat b * 256
      in [encChar (v div 262144), encChar (v div 4096 mod 64), encChar (v div 64 mod 64),
          CHR ''=''])"
| "EncodeToString (a # b # c # src) =
     (let v = unat a * 65536 + unat b * 256 + unat c
      in [encChar (v div 262144), encChar (v div 4096 mod 64), encChar (v div 64 mod 64),
          encChar (v mod 64)] @ EncodeToString src)"

definition decodeLast :: "nat \<Rightarrow> nat \<Rightarrow> char \<Rightarrow> char \<Rightarrow> byte list option" where
  "decodeLast d0 d1 c2 c3 =
     (if c2 = CHR ''='' then
        (if c3 = CHR ''='' then Some [of_nat ((d0 * 262144 + d1 * 4096) div 65536)] else None)
      else (case decodeMap c2 of
              None \<Rightarrow> None
            | Some d2 \<Rightarrow>
                (if c3 = CHR ''=''
                 then Some (let v = d0 * 262144 + d1 * 4096 + d2 * 64
                            in [of_nat (v div 65536), of_nat (v div 256)])
                 else None)))"

definition decodeFull :: "nat \<Rightarrow> nat \<Rightarrow> char \<Rightarrow> char \<Rightarrow> byte list option" where
  "decodeFull d0 d1 c2 c3 =
     (case decodeMap c2 of
        None \<Rightarrow> None
      | Some d2 \<Rightarrow>
          (case decodeMap c3 of
             None \<Rightarrow> None
           | Some d3 \<Rightarrow>
               Some (let v = d0 * 262144 + d1 * 4096 + d2 * 64 + d3
                     in [of_nat (v div 65536), of_nat (v div 256), of_nat v])))"

text \<open>
  One group of four characters at a time, the carriage returns and line feeds taken out
  before. A group with \<open>=\<close> must be the last one (\<open>decodeLast\<close>); the input must
  end with a whole group.
\<close>

fun decodeQuanta :: "string \<Rightarrow> byte list option" where
  "decodeQuanta [] = Some []"
| "decodeQuanta (c0 # c1 # c2 # c3 # src) =
     (case decodeMap c0 of
        None \<Rightarrow> None
      | Some d0 \<Rightarrow>
          (case decodeMap c1 of
             None \<Rightarrow> None
           | Some d1 \<Rightarrow>
               (if c2 = CHR ''='' \<or> c3 = CHR ''=''
                then (if src = [] then decodeLast d0 d1 c2 c3 else None)
                else (case decodeFull d0 d1 c2 c3 of
                        None \<Rightarrow> None
                      | Some q \<Rightarrow>
                          (case decodeQuanta src of
                             None \<Rightarrow> None
                           | Some dst \<Rightarrow> Some (q @ dst))))))"
| "decodeQuanta (c0 # src) = None"

definition DecodeString :: "string \<Rightarrow> byte list option" where
  "DecodeString s = decodeQuanta (filter (\<lambda>c. c \<noteq> CHR 0x0A \<and> c \<noteq> CHR 0x0D) s)"

subsection \<open>net/netip\<close>

text \<open>
  The operations on addresses and prefixes, after their source in the Go library. The
  zero \<open>Addr\<close> has no next address in the usual sense: \<open>Next\<close> adds one to the
  128-bit value whatever the tag is, and only an IPv4 value whose low 32 bits wrap, or
  another value that wraps to 0, gives the zero \<open>Addr\<close>.
\<close>

definition BitLen :: "Addr \<Rightarrow> int" where
  "BitLen a = (case z a of z0 \<Rightarrow> 0 | z4 \<Rightarrow> 32 | z6 zn \<Rightarrow> 128)"

definition Is4 :: "Addr \<Rightarrow> bool" where
  "Is4 a = (z a = z4)"

definition Is6 :: "Addr \<Rightarrow> bool" where
  "Is6 a = (z a \<noteq> z0 \<and> z a \<noteq> z4)"

definition Is4In6 :: "Addr \<Rightarrow> bool" where
  "Is4In6 a = (Is6 a \<and> drop_bit 32 (addr a) = 0xFFFF)"

definition isZero :: "Addr \<Rightarrow> bool" where
  "isZero a = (z a = z0)"

definition hasZone :: "Addr \<Rightarrow> bool" where
  "hasZone a = (case z a of z6 zn \<Rightarrow> zn \<noteq> [] | _ \<Rightarrow> False)"

definition withoutZone :: "Addr \<Rightarrow> Addr" where
  "withoutZone a = (if Is6 a then a\<lparr>z := z6 []\<rparr> else a)"

definition Next :: "Addr \<Rightarrow> Addr" where
  "Next a =
     (let a' = a\<lparr>addr := addr a + 1\<rparr> in
      if Is4 a' then (if (ucast (addr a') :: 32 word) = 0 then zeroAddr else a')
      else (if addr a' = 0 then zeroAddr else a'))"

definition AddrFrom4 :: "byte \<Rightarrow> byte \<Rightarrow> byte \<Rightarrow> byte \<Rightarrow> Addr" where
  "AddrFrom4 b0 b1 b2 b3 =
     \<lparr>addr = 0xFFFF00000000 OR push_bit 24 (ucast b0) OR push_bit 16 (ucast b1)
         OR push_bit 8 (ucast b2) OR ucast b3,
      z = z4\<rparr>"

text \<open>\<open>As4\<close> panics on the zero \<open>Addr\<close> and on an IPv6 address that maps no IPv4 one;
  its result is the low 32 bits, as \<open>uint32(ip.addr.lo)\<close>.\<close>

datatype panic = Panic string

definition As4 :: "Addr \<Rightarrow> panic + 32 word" where
  "As4 a =
     (if z a = z4 \<or> Is4In6 a then Inr (ucast (addr a))
      else if z a = z0 then Inl (Panic ''As4 called on IP zero value'')
      else Inl (Panic ''As4 called on IPv6 address''))"

definition PrefixFrom :: "Addr \<Rightarrow> int \<Rightarrow> Prefix" where
  "PrefixFrom a bits =
     \<lparr>ip = withoutZone a,
      bitsPlusOne = (if \<not> isZero a \<and> 0 \<le> bits \<and> bits \<le> BitLen a
                     then word_of_int bits + 1 else 0)\<rparr>"

definition Bits :: "Prefix \<Rightarrow> int" where
  "Bits p = uint (bitsPlusOne p) - 1"

definition Prefix_IsValid :: "Prefix \<Rightarrow> bool" where
  "Prefix_IsValid p = (bitsPlusOne p > 0)"

definition Contains :: "Prefix \<Rightarrow> Addr \<Rightarrow> bool" where
  "Contains p a =
     (if \<not> Prefix_IsValid p \<or> hasZone a then False
      else if BitLen (ip p) = 0 \<or> BitLen a = 0 \<or> BitLen (ip p) \<noteq> BitLen a then False
      else if Is4 a then
        (ucast (drop_bit (nat ((32 - Bits p) mod 64))
                  ((ucast (addr a) :: 64 word) XOR (ucast (addr (ip p)) :: 64 word))) :: 32 word) = 0
      else (addr a XOR addr (ip p)) AND push_bit (nat (128 - Bits p)) (-1) = 0)"

text \<open>
  The text of addresses and prefixes (\<open>netip.ParseAddr\<close>, \<open>netip.ParsePrefix\<close>,
  \<open>Addr.String\<close>, \<open>Prefix.String\<close>) is a parameter of every function that reads or
  writes one: the program only passes such text through.
\<close>

record netip =
  ParseAddr :: "string \<Rightarrow> Addr option"
  ParsePrefix :: "string \<Rightarrow> Prefix option"
  Addr_String :: "Addr \<Rightarrow> string"
  Prefix_String :: "Prefix \<Rightarrow> string"

section \<open>Peer registry mutators\<close>

text \<open>
  The three lookups run the same loop: \<open>idx\<close> starts at -1 and every peer of the
  given name overwrites it with its own index.
\<close>

fun lastIndex :: "string \<Rightarrow> Peer list \<Rightarrow> int \<Rightarrow> int \<Rightarrow> int" where
  "lastIndex name [] i idx = idx"
| "lastIndex name (peer # rest) i idx =
     lastIndex name rest (i + 1) (if Peer.Name peer = name then i else idx)"

definition DisablePeer :: "'a Config_scheme \<Rightarrow> string \<Rightarrow> error option \<times> 'a Config_scheme" where
  "DisablePeer c name =
     (let idx = lastIndex name (Peers c) 0 (-1) in
      if idx < 0 then (Some PeerNotFound, c)
      else (None, c\<lparr>Peers := (Peers c)[nat idx := (Peers c ! nat idx)\<lparr>Peer.Disabled := True\<rparr>]\<rparr>))"

definition EnablePeer :: "'a Config_scheme \<Rightarrow> string \<Rightarrow> error option \<times> 'a Config_scheme" where
  "EnablePeer c name =
     (let idx = lastIndex name (Peers c) 0 (-1) in
      if idx < 0 then (Some PeerNotFound, c)
      else (None, c\<lparr>Peers := (Peers c)[nat idx := (Peers c ! nat idx)\<lparr>Peer.Disabled := False\<rparr>]\<rparr>))"

definition RemovePeer :: "'a Config_scheme \<Rightarrow> string \<Rightarrow> error option \<times> 'a Config_scheme" where
  "RemovePeer c name =
     (let idx = lastIndex name (Peers c) 0 (-1) in
      if idx < 0 then (Some PeerNotFound, c)
      else (None, c\<lparr>Peers := take (nat idx) (Peers c) @ drop (nat idx + 1) (Peers c)\<rparr>))"

definition AddPeer :: "'a Config_scheme \<Rightarrow> Peer \<Rightarrow> error option \<times> 'a Config_scheme" where
  "AddPeer c peer =
     (if Peer.Name peer = [] then (Some (Errorf ''peer must have a name'' []), c)
      else if list_ex (\<lambda>p. Peer.Name p = Peer.Name peer) (Peers c)
        then (Some (Errorf ''peer %q is already registered'' [Peer.Name peer]), c)
      else (None, c\<lparr>Peers := Peers c @ [peer]\<rparr>))"

section \<open>Serialisation (pkg/wireguard/export.go)\<close>

definition Key_String :: "Key \<Rightarrow> string" where
  "Key_String k = EncodeToString k"

definition Endpoint_String :: "Endpoint \<Rightarrow> string" where
  "Endpoint_String e =
     (if IndexByte (Host e) (CHR '':'') \<noteq> -1
      then ''['' @ Host e @ '']:'' @ fmtInt (uint (Port e))
      else Host e @ '':'' @ fmtInt (uint (Port e)))"

definition Endpoint_IsEmpty :: "Endpoint \<Rightarrow> bool" where
  "Endpoint_IsEmpty e = (length (Host e) = 0)"

text \<open>\<open>insertDisabledPrefix\<close> of \<open>Peer.Export\<close>: what it writes before every line.\<close>

definition insertDisabledPrefix :: "Peer \<Rightarrow> string" where
  "insertDisabledPrefix p = (if Peer.Disabled p then ''#[disabled] '' else [])"

definition Peer_Export :: "'n netip_scheme \<Rightarrow> Peer \<Rightarrow> string" where
  "Peer_Export N p =
     (if Peer.Name p \<noteq> [] then
        insertDisabledPrefix p @ ''### begin '' @ Peer.Name p @ '' ###'' @ [CHR 0x0A] else [])
     @ insertDisabledPrefix p @ ''[Peer]'' @ [CHR 0x0A]
     @ insertDisabledPrefix p @ ''PublicKey = '' @ Key_String (PublicKey p) @ [CHR 0x0A]
     @ (if \<not> IsZero (PresharedKey p) then
          insertDisabledPrefix p @ ''PresharedKey = '' @ Key_String (PresharedKey p) @ [CHR 0x0A]
        else [])
     @ (if length (AllowedIPs p) > 0 then
          insertDisabledPrefix p @ ''AllowedIPs = ''
            @ Join (map (Prefix_String N) (AllowedIPs p)) '', '' @ [CHR 0x0A]
        else [])
     @ (if \<not> Endpoint_IsEmpty (Endpoint p) then
          insertDisabledPrefix p @ ''Endpoint = '' @ Endpoint_String (Endpoint p) @ [CHR 0x0A]
        else [])
     @ (if PersistentKeepalive p > 0 then
          insertDisabledPrefix p @ ''PersistentKeepalive = ''
            @ fmtInt (uint (PersistentKeepalive p)) @ [CHR 0x0A]
        else [])
     @ (if Peer.Name p \<noteq> [] then
          insertDisabledPrefix p @ ''### end '' @ Peer.Name p @ '' ###'' else [])"

definition Interface_Export :: "'n netip_scheme \<Rightarrow> Interface \<Rightarrow> string" where
  "Interface_Export N i =
     ''[Interface]'' @ [CHR 0x0A]
     @ ''PrivateKey = '' @ Key_String (PrivateKey i) @ [CHR 0x0A]
     @ (if ListenPort i > 0 then ''ListenPort = '' @ fmtInt (uint (ListenPort i)) @ [CHR 0x0A]
        else [])
     @ (if length (Addresses i) > 0 then
          ''Address = '' @ Join (map (Prefix_String N) (Addresses i)) '', '' @ [CHR 0x0A]
        else [])
     @ (if length (DNS i) + length (DNSSearch i) > 0 then
          ''DNS = '' @ Join (map (Addr_String N) (DNS i) @ DNSSearch i) '', '' @ [CHR 0x0A]
        else [])
     @ (if MTU i > 0 then ''MTU = '' @ fmtInt (uint (MTU i)) @ [CHR 0x0A] else [])
     @ (if length (PreUp i) > 0 then ''PreUp = '' @ PreUp i @ [CHR 0x0A] else [])
     @ (if length (PostUp i) > 0 then ''PostUp = '' @ PostUp i @ [CHR 0x0A] else [])
     @ (if length (PreDown i) > 0 then ''PreDown = '' @ PreDown i @ [CHR 0x0A] else [])
     @ (if length (PostDown i) > 0 then ''PostDown = '' @ PostDown i @ [CHR 0x0A] else [])
     @ (if TableOff i then ''Table = off'' @ [CHR 0x0A] else [])"

text \<open>\<open>Config.Export\<close>: the interface block, then every peer's block and a line feed.\<close>

definition Export :: "'n netip_scheme \<Rightarrow> 'a Config_scheme \<Rightarrow> string" where
  "Export N c =
     Interface_Export N (Interface c)
     @ concat (map (\<lambda>peer. Peer_Export N peer @ [CHR 0x0A]) (Peers c))"

section \<open>Parsing (the parser of pkg/wireguard)\<close>

definition parseIPCidr :: "'n netip_scheme \<Rightarrow> string \<Rightarrow> error + Prefix" where
  "parseIPCidr N s =
     (case ParsePrefix N s of
        Some ipcidr \<Rightarrow> Inr ipcidr
      | None \<Rightarrow>
          (case ParseAddr N s of
             None \<Rightarrow> Inl (ParseError ''Invalid IP address: '' s)
           | Some a \<Rightarrow> Inr (PrefixFrom a (BitLen a))))"

definition parsePort :: "string \<Rightarrow> error + 16 word" where
  "parsePort s =
     (case Atoi s of
        Inl err \<Rightarrow> Inl err
      | Inr m \<Rightarrow> if m < 0 \<or> m > 65535 then Inl (ParseError ''Invalid port'' s)
                 else Inr (word_of_int m))"

definition parseMTU :: "string \<Rightarrow> error + 16 word" where
  "parseMTU s =
     (case Atoi s of
        Inl err \<Rightarrow> Inl err
      | Inr m \<Rightarrow> if m < 576 \<or> m > 65535 then Inl (ParseError ''Invalid MTU'' s)
                 else Inr (word_of_int m))"

definition parsePersistentKeepalive :: "string \<Rightarrow> error + 16 word" where
  "parsePersistentKeepalive s =
     (if s = ''off'' then Inr 0
      else (case Atoi s of
              Inl err \<Rightarrow> Inl err
            | Inr m \<Rightarrow> if m < 0 \<or> m > 65535
                       then Inl (ParseError ''Invalid persistent keepalive'' s)
                       else Inr (word_of_int m)))"

definition parseTableOff :: "string \<Rightarrow> error + bool" where
  "parseTableOff s =
     (if s = ''off'' then Inr True
      else if s = ''auto'' \<or> s = ''main'' then Inr False
      else (case ParseUint s 32 of
              Inl e \<Rightarrow> Inl (NumError ''ParseUint'' s e)
            | Inr n \<Rightarrow> Inr False))"

text \<open>
  \<open>parseEndpoint\<close>. The slices \<open>s[:i]\<close>, \<open>s[i+1:]\<close> and \<open>host[1:end]\<close> are in range
  wherever the code takes them.
\<close>

definition parseEndpoint :: "'n netip_scheme \<Rightarrow> string \<Rightarrow> error + Endpoint" where
  "parseEndpoint N s =
     (let i = LastIndexByte s (CHR '':'') in
      if i < 0 then Inl (ParseError ''Missing port from endpoint'' s)
      else
        (let host = take (nat i) s; portStr = drop (nat (i + 1)) s in
         if length host < 1 then Inl (ParseError ''Invalid endpoint host'' host)
         else
           (case parsePort portStr of
              Inl err \<Rightarrow> Inl err
            | Inr port \<Rightarrow>
                (let hostColon = IndexByte host (CHR '':'') in
                 if hd host = CHR ''['' \<or> last host = CHR '']'' \<or> hostColon > 0 then
                   (if length host > 3 \<and> hd host = CHR ''['' \<and> last host = CHR '']''
                        \<and> hostColon > 0 then
                      (let i2 = LastIndexByte host (CHR ''%'');
                           end = (if i2 > 1 then nat i2 else length host - 1)
                       in case ParseAddr N (take (end - 1) (drop 1 host)) of
                            None \<Rightarrow> Inl (ParseError ''Brackets must contain an IPv6 address'' host)
                          | Some maybeV6 \<Rightarrow>
                              if \<not> Is6 maybeV6
                              then Inl (ParseError ''Brackets must contain an IPv6 address'' host)
                              else Inr \<lparr>Host = take (length host - 2) (drop 1 host), Port = port\<rparr>)
                    else Inl (ParseError ''Brackets must contain an IPv6 address'' host))
                 else Inr \<lparr>Host = host, Port = port\<rparr>))))"

text \<open>\<open>ParseKeyBase64\<close>. The first error of the code quotes the decoder's own message,
  which the model leaves out of \<open>Why\<close>.\<close>

definition ParseKeyBase64 :: "string \<Rightarrow> error + Key" where
  "ParseKeyBase64 s =
     (case DecodeString s of
        None \<Rightarrow> Inl (ParseError ''Invalid key'' s)
      | Some k \<Rightarrow>
          if length k \<noteq> KeyLength then Inl (ParseError ''Keys must decode to exactly 32 bytes'' s)
          else Inr k)"

fun trimAll :: "string list \<Rightarrow> string \<Rightarrow> error + string list" where
  "trimAll [] s = Inr []"
| "trimAll (split # splits) s =
     (let trim = TrimSpace split in
      if length trim = 0 then Inl (ParseError ''Two commas in a row'' s)
      else (case trimAll splits s of Inl err \<Rightarrow> Inl err | Inr out \<Rightarrow> Inr (trim # out)))"

definition splitList :: "string \<Rightarrow> error + string list" where
  "splitList s = trimAll (Split s (CHR '','')) s"

text \<open>The loop \<open>for _, address := range addresses\<close> over \<open>parseIPCidr\<close>: it appends
  until the first address that does not parse, and what it appended stays.\<close>

fun appendCidrs :: "'n netip_scheme \<Rightarrow> Prefix list \<Rightarrow> string list \<Rightarrow> error option \<times> Prefix list" where
  "appendCidrs N acc [] = (None, acc)"
| "appendCidrs N acc (address # addresses) =
     (case parseIPCidr N address of
        Inl err \<Rightarrow> (Some err, acc)
      | Inr a \<Rightarrow> appendCidrs N (acc @ [a]) addresses)"

text \<open>The lines \<open>equals := strings.IndexByte(line, '=')\<close> to the test of \<open>len(val)\<close>,
  which \<open>parsePeer\<close> and \<open>UnmarshalReader\<close> share word for word.\<close>

definition keyValue :: "string \<Rightarrow> string \<Rightarrow> error + string \<times> string" where
  "keyValue line lineLower =
     (let equals = IndexByte line (CHR ''='') in
      if equals < 0 then Inl (ParseError ''Server key is missing an equals separator'' line)
      else
        (let key = TrimSpace (take (nat equals) lineLower);
             val = TrimSpace (drop (nat (equals + 1)) line)
         in if length val = 0 then Inl (ParseError ''Key must have a value'' line)
            else Inr (key, val)))"

text \<open>The \<open>switch key\<close> of \<open>parsePeer\<close>.\<close>

definition peerKey :: "'n netip_scheme \<Rightarrow> Peer \<Rightarrow> string \<Rightarrow> string \<Rightarrow> error + Peer" where
  "peerKey N peer key val =
     (if key = ''publickey'' then
        (case ParseKeyBase64 val of
           Inl err \<Rightarrow> Inl err | Inr k \<Rightarrow> Inr (peer\<lparr>PublicKey := k\<rparr>))
      else if key = ''presharedkey'' then
        (case ParseKeyBase64 val of
           Inl err \<Rightarrow> Inl err | Inr k \<Rightarrow> Inr (peer\<lparr>PresharedKey := k\<rparr>))
      else if key = ''allowedips'' then
        (case splitList val of
           Inl err \<Rightarrow> Inl err
         | Inr addresses \<Rightarrow>
             (case appendCidrs N (AllowedIPs peer) addresses of
                (Some err, ips) \<Rightarrow> Inl err
              | (None, ips) \<Rightarrow> Inr (peer\<lparr>AllowedIPs := ips\<rparr>)))
      else if key = ''persistentkeepalive'' then
        (case parsePersistentKeepalive val of
           Inl err \<Rightarrow> Inl err | Inr p \<Rightarrow> Inr (peer\<lparr>PersistentKeepalive := p\<rparr>))
      else if key = ''endpoint'' then
        (case parseEndpoint N val of
           Inl err \<Rightarrow> Inl err | Inr e \<Rightarrow> Inr (peer\<lparr>Endpoint := e\<rparr>))
      else Inl (ParseError ''Invalid key for [Peer] section'' key))"

text \<open>
  \<open>parsePeer\<close>. The scanner is the line it stands on (\<open>text\<close>) and the lines after it
  (\<open>rest\<close>); the result carries the lines that the caller's next \<open>Scan\<close> will see: those
  after the line where the loop broke, none when \<open>Scan\<close> has returned false.

  At \<open>continue\<close> the loop starts over on the same line. When \<open>disabled\<close> was already
  set, nothing has changed since the iteration began (\<open>disabled\<close> and
  \<open>peer.Disabled\<close> were true, the scanner has not moved), so the same iteration repeats
  for ever: the function does not return, which is the value \<open>None\<close>.
\<close>

function parsePeerLoop ::
  "'n netip_scheme \<Rightarrow> Peer \<Rightarrow> bool \<Rightarrow> bool \<Rightarrow> string \<Rightarrow> string list
     \<Rightarrow> (error + Peer \<times> string list) option" where
  "parsePeerLoop N peer disabled seenPeer text rest =
     (let line0 = (if disabled then fst (snd (Cut text ''[disabled] '')) else text);
          line1 = fst (Cut line0 ''#'');
          lineAfter = fst (snd (Cut line0 ''#''))
      in
      if line1 = [] \<and> HasPrefix lineAfter ''[disabled]'' then
        (if disabled then None
         else parsePeerLoop N (peer\<lparr>Peer.Disabled := True\<rparr>) True seenPeer text rest)
      else
        (let line = TrimSpace line1; lineLower = ToLower line in
         if beginRegex lineAfter \<noteq> None then
           (if Peer.Name peer \<noteq> [] then Some (Inl (ParseError ''Duplicate begin line'' lineAfter))
            else (case rest of
                    [] \<Rightarrow> Some (Inr (peer\<lparr>Peer.Name := the (beginRegex lineAfter)\<rparr>, []))
                  | l # ls \<Rightarrow>
                      parsePeerLoop N (peer\<lparr>Peer.Name := the (beginRegex lineAfter)\<rparr>)
                        disabled seenPeer l ls))
         else if lineLower = ''[interface]'' then Some (Inr (peer, rest))
         else if lineLower = ''[peer]'' then
           (if seenPeer then Some (Inr (peer, rest))
            else (case rest of
                    [] \<Rightarrow> Some (Inr (peer, []))
                  | l # ls \<Rightarrow> parsePeerLoop N peer disabled True l ls))
         else if endRegex lineAfter then Some (Inr (peer, rest))
         else if length line = 0 then
           (case rest of
              [] \<Rightarrow> Some (Inr (peer, []))
            | l # ls \<Rightarrow> parsePeerLoop N peer disabled seenPeer l ls)
         else
           (case keyValue line lineLower of
              Inl err \<Rightarrow> Some (Inl err)
            | Inr (key, val) \<Rightarrow>
                (case peerKey N peer key val of
                   Inl err \<Rightarrow> Some (Inl err)
                 | Inr peer' \<Rightarrow>
                     (case rest of
                        [] \<Rightarrow> Some (Inr (peer', []))
                      | l # ls \<Rightarrow> parsePeerLoop N peer' disabled seenPeer l ls)))))"
  by pat_completeness auto
termination
  by (relation "measures [\<lambda>(N, peer, disabled, seenPeer, text, rest). length rest,
                          \<lambda>(N, peer, disabled, seenPeer, text, rest). if disabled then 0 else 1]")
     auto

declare parsePeerLoop.simps [simp del]

definition parsePeer :: "'n netip_scheme \<Rightarrow> string \<Rightarrow> string list \<Rightarrow> (error + Peer \<times> string list) option" where
  "parsePeer N text rest = parsePeerLoop N zeroPeer False False text rest"

text \<open>\<open>parsePeer\<close> gives back no more lines than it was given: the loop of
  \<open>UnmarshalReader\<close> goes on from there.\<close>

lemma parsePeerLoop_rest_disabled:
  assumes IH: "\<And>peer disabled seenPeer cur ls p rest'.
      parsePeerLoop N peer disabled seenPeer cur ls = Some (Inr (p, rest'))
      \<Longrightarrow> length ls < length rest \<Longrightarrow> length rest' \<le> length ls"
    and run: "parsePeerLoop N peer True seenPeer cur rest = Some (Inr (p, rest'))"
  shows "length rest' \<le> length rest"
  using run
  apply (subst (asm) parsePeerLoop.simps)
  apply (auto simp: Let_def split: if_splits list.splits sum.splits prod.splits dest!: IH)
  done

lemma parsePeerLoop_rest_enabled:
  assumes IH: "\<And>peer disabled seenPeer cur ls p rest'.
      parsePeerLoop N peer disabled seenPeer cur ls = Some (Inr (p, rest'))
      \<Longrightarrow> length ls < length rest \<Longrightarrow> length rest' \<le> length ls"
    and run: "parsePeerLoop N peer False seenPeer cur rest = Some (Inr (p, rest'))"
  shows "length rest' \<le> length rest"
proof (cases "fst (Cut cur ''#'') = [] \<and> HasPrefix (fst (snd (Cut cur ''#''))) ''[disabled]''")
  case True
  with run have "parsePeerLoop N (peer\<lparr>Peer.Disabled := True\<rparr>) True seenPeer cur rest
      = Some (Inr (p, rest'))"
    by (subst (asm) parsePeerLoop.simps) (simp add: Let_def)
  then show ?thesis
    by (rule parsePeerLoop_rest_disabled [rotated]) (rule IH)
next
  case False
  with run show ?thesis
    apply (subst (asm) parsePeerLoop.simps)
    apply (auto simp: Let_def split: if_splits list.splits sum.splits prod.splits dest!: IH)
    done
qed

lemma parsePeerLoop_rest:
  "parsePeerLoop N peer disabled seenPeer cur rest = Some (Inr (p, rest'))
   \<Longrightarrow> length rest' \<le> length rest"
proof (induction "length rest" arbitrary: peer disabled seenPeer cur rest p rest' rule: less_induct)
  case less
  have IH: "\<And>peer disabled seenPeer cur ls p rest'.
      parsePeerLoop N peer disabled seenPeer cur ls = Some (Inr (p, rest'))
      \<Longrightarrow> length ls < length rest \<Longrightarrow> length rest' \<le> length ls"
    using less.hyps by blast
  show ?case
  proof (cases disabled)
    case True
    with less.prems show ?thesis
      by (auto intro: parsePeerLoop_rest_disabled [OF IH])
  next
    case False
    with less.prems show ?thesis
      by (auto intro: parsePeerLoop_rest_enabled [OF IH])
  qed
qed

datatype parserState = notInSection | inInterface | inPeer

definition maybeAddPeer :: "'a Config_scheme \<Rightarrow> Peer option \<Rightarrow> 'a Config_scheme" where
  "maybeAddPeer c p = (case p of None \<Rightarrow> c | Some peer \<Rightarrow> c\<lparr>Peers := Peers c @ [peer]\<rparr>)"

text \<open>The loop of the key \<open>dns\<close>: an element that parses as an address is a resolver,
  any other a search domain.\<close>

fun appendDNS :: "'n netip_scheme \<Rightarrow> Interface \<Rightarrow> string list \<Rightarrow> Interface" where
  "appendDNS N i [] = i"
| "appendDNS N i (address # addresses) =
     (case ParseAddr N address of
        None \<Rightarrow> appendDNS N (i\<lparr>DNSSearch := DNSSearch i @ [address]\<rparr>) addresses
      | Some a \<Rightarrow> appendDNS N (i\<lparr>DNS := DNS i @ [a]\<rparr>) addresses)"

text \<open>
  The \<open>switch key\<close> of \<open>UnmarshalReader\<close> in the interface section, on
  \<open>c.Interface\<close> and \<open>sawPrivateKey\<close>. The interface is returned with the error: the
  addresses appended before one that does not parse stay in it.
\<close>

definition interfaceKey ::
  "'n netip_scheme \<Rightarrow> Interface \<Rightarrow> bool \<Rightarrow> string \<Rightarrow> string \<Rightarrow> error option \<times> Interface \<times> bool" where
  "interfaceKey N i sawPrivateKey key val =
     (if key = ''privatekey'' then
        (case ParseKeyBase64 val of
           Inl err \<Rightarrow> (Some err, i, sawPrivateKey)
         | Inr k \<Rightarrow> (None, i\<lparr>PrivateKey := k\<rparr>, True))
      else if key = ''listenport'' then
        (case parsePort val of
           Inl err \<Rightarrow> (Some err, i, sawPrivateKey)
         | Inr p \<Rightarrow> (None, i\<lparr>ListenPort := p\<rparr>, sawPrivateKey))
      else if key = ''mtu'' then
        (case parseMTU val of
           Inl err \<Rightarrow> (Some err, i, sawPrivateKey)
         | Inr m \<Rightarrow> (None, i\<lparr>MTU := m\<rparr>, sawPrivateKey))
      else if key = ''address'' then
        (case splitList val of
           Inl err \<Rightarrow> (Some err, i, sawPrivateKey)
         | Inr addresses \<Rightarrow>
             (case appendCidrs N (Addresses i) addresses of
                (err, ips) \<Rightarrow> (err, i\<lparr>Addresses := ips\<rparr>, sawPrivateKey)))
      else if key = ''dns'' then
        (case splitList val of
           Inl err \<Rightarrow> (Some err, i, sawPrivateKey)
         | Inr addresses \<Rightarrow> (None, appendDNS N i addresses, sawPrivateKey))
      else if key = ''preup'' then (None, i\<lparr>PreUp := val\<rparr>, sawPrivateKey)
      else if key = ''postup'' then (None, i\<lparr>PostUp := val\<rparr>, sawPrivateKey)
      else if key = ''predown'' then (None, i\<lparr>PreDown := val\<rparr>, sawPrivateKey)
      else if key = ''postdown'' then (None, i\<lparr>PostDown := val\<rparr>, sawPrivateKey)
      else if key = ''table'' then
        (case parseTableOff val of
           Inl err \<Rightarrow> (Some err, i, sawPrivateKey)
         | Inr tableOff \<Rightarrow> (None, i\<lparr>TableOff := tableOff\<rparr>, sawPrivateKey))
      else (Some (ParseError ''Invalid key for [Interface] section'' key), i, sawPrivateKey))"

text \<open>What \<open>UnmarshalReader\<close> checks after its loop.\<close>

definition postConditions :: "'a Config_scheme \<Rightarrow> bool \<Rightarrow> error option" where
  "postConditions c sawPrivateKey =
     (if \<not> sawPrivateKey
      then Some (ParseError ''An interface must have a private key'' ''[none specified]'')
      else if list_ex (\<lambda>p. IsZero (PublicKey p)) (Peers c)
      then Some (ParseError ''All peers must have public keys'' ''[none specified]'')
      else None)"

text \<open>
  The loop of \<open>UnmarshalReader\<close> over the lines the scanner has left, on the receiver
  \<open>c\<close>, \<open>state\<close>, \<open>sawPrivateKey\<close> and the variable \<open>peer\<close> of the function. The
  code never assigns that variable (\<open>peer, err := parsePeer(scanner)\<close> declares another
  one in the block of the \<open>if\<close>), so it is nil wherever the code reads it. The result
  is the error and the receiver as the call leaves it; \<open>None\<close> when \<open>parsePeer\<close> does
  not return.
\<close>

function UnmarshalLoop ::
  "'n netip_scheme \<Rightarrow> 'a Config_scheme \<Rightarrow> parserState \<Rightarrow> bool \<Rightarrow> Peer option \<Rightarrow> string list
     \<Rightarrow> (error option \<times> 'a Config_scheme) option" where
  "UnmarshalLoop N c state sawPrivateKey peer [] =
     (let c' = maybeAddPeer c peer in Some (postConditions c' sawPrivateKey, c'))"
| "UnmarshalLoop N c state sawPrivateKey peer (text # rest) =
     (let line = TrimSpace (fst (Cut text ''#''));
          lineAfter = fst (snd (Cut text ''#''));
          lineLower = ToLower line
      in
      if lineLower = ''[interface]'' then
        UnmarshalLoop N (maybeAddPeer c peer) inInterface sawPrivateKey peer rest
      else if lineLower = ''[peer]'' \<or> beginWithDisabledRegex lineAfter then
        (case parsePeer N text rest of
           None \<Rightarrow> None
         | Some (Inl err) \<Rightarrow> Some (Some err, c)
         | Some (Inr (peer', rest')) \<Rightarrow>
             UnmarshalLoop N (maybeAddPeer c (Some peer')) inPeer sawPrivateKey peer rest')
      else if length line = 0 then UnmarshalLoop N c state sawPrivateKey peer rest
      else if state = notInSection
        then Some (Some (ParseError ''line must occur in a section'' line), c)
      else
        (case keyValue line lineLower of
           Inl err \<Rightarrow> Some (Some err, c)
         | Inr (key, val) \<Rightarrow>
             (if state = inInterface then
                (case interfaceKey N (Interface c) sawPrivateKey key val of
                   (Some err, i, saw) \<Rightarrow> Some (Some err, c\<lparr>Interface := i\<rparr>)
                 | (None, i, saw) \<Rightarrow> UnmarshalLoop N (c\<lparr>Interface := i\<rparr>) state saw peer rest)
              else UnmarshalLoop N c state sawPrivateKey peer rest)))"
  by pat_completeness auto
termination
  by (relation "measure (\<lambda>(N, c, state, sawPrivateKey, peer, lines). length lines)")
     (auto simp: parsePeer_def dest: parsePeerLoop_rest)

declare UnmarshalLoop.simps [simp del]

definition UnmarshalReader ::
  "'n netip_scheme \<Rightarrow> 'a Config_scheme \<Rightarrow> string \<Rightarrow> (error option \<times> 'a Config_scheme) option" where
  "UnmarshalReader N c input = UnmarshalLoop N c notInSection False None (scanLines input)"

text \<open>\<open>ParseConfig\<close> gives the configuration only when \<open>UnmarshalReader\<close> returns no
  error.\<close>

definition ParseConfig :: "'n netip_scheme \<Rightarrow> string \<Rightarrow> string \<Rightarrow> (error + Config) option" where
  "ParseConfig N input name =
     (case UnmarshalReader N \<lparr>Config.Name = name, Interface = zeroInterface, Peers = []\<rparr> input of
        None \<Rightarrow> None
      | Some (Some err, conf) \<Rightarrow> Some (Inl err)
      | Some (None, conf) \<Rightarrow> Some (Inr conf))"

section \<open>The client registry (pkg/pivpn/clients.go)\<close>

text \<open>
  \<open>time.Time\<close> as the seconds since the epoch and the nanoseconds within the second;
  \<open>time.Unix(sec, 0)\<close> has no nanoseconds and \<open>Time.Unix\<close> reads the seconds.
\<close>

record Time =
  sec :: int
  nsec :: int

definition time_Unix :: "int \<Rightarrow> Time" where
  "time_Unix s = \<lparr>sec = s, nsec = 0\<rparr>"

definition Unix :: "Time \<Rightarrow> int" where
  "Unix t = sec t"

text \<open>\<open>Client\<close> embeds \<open>wireguard.Config\<close>: the record extends \<open>Config\<close>.\<close>

record Client = Config +
  Disabled :: bool
  CreationDate :: Time

record ClientInfo =
  Name :: string
  PublicKey :: Key
  CreationDate :: Time
  IPAddr :: Addr

text \<open>
  What the package takes from outside the repository, besides the text of addresses:
  \<open>Key.Public\<close> is the scalar multiplication of curve25519, \<open>filepath.Join\<close> the
  path of a file in a directory, \<open>godotenv.Parse\<close> the reader of the settings file.
\<close>

record env = netip +
  Public :: "Key \<Rightarrow> Key"
  filepath_Join :: "string \<Rightarrow> string \<Rightarrow> string"
  godotenv_Parse :: "string \<Rightarrow> error + (string \<rightharpoonup> string)"

text \<open>\<open>invalidDNSChars.ReplaceAllLiteralString(c.Name, "-")\<close> with
  \<open>invalidDNSChars = [^a-zA-Z0-9-]+\<close>: every longest run of other characters becomes
  one hyphen.\<close>

definition dnsChar :: "char \<Rightarrow> bool" where
  "dnsChar c = (isAlnum c \<or> c = CHR ''-'')"

function invalidDNSChars_Replace :: "string \<Rightarrow> string" where
  "invalidDNSChars_Replace [] = []"
| "invalidDNSChars_Replace (c # s) =
     (if dnsChar c then c # invalidDNSChars_Replace s
      else CHR ''-'' # invalidDNSChars_Replace (dropWhile (\<lambda>x. \<not> dnsChar x) s))"
  by pat_completeness auto
termination
  by (relation "measure length") (auto simp: length_dropWhile_le less_Suc_eq_le)

definition DNSName :: "'a Config_scheme \<Rightarrow> string" where
  "DNSName c = invalidDNSChars_Replace (Config.Name c)"

text \<open>Indexing a slice at 0 panics when the slice is empty.\<close>

definition index0 :: "'a list \<Rightarrow> panic + 'a" where
  "index0 xs = (case xs of [] \<Rightarrow> Inl (Panic ''index out of range [0] with length 0'')
                | x # rest \<Rightarrow> Inr x)"

definition ToPeer :: "'e env_scheme \<Rightarrow> 'a Config_scheme \<Rightarrow> panic + Peer" where
  "ToPeer E c =
     (case index0 (Peers c) of
        Inl pn \<Rightarrow> Inl pn
      | Inr server \<Rightarrow>
          (case index0 (Addresses (Interface c)) of
             Inl pn \<Rightarrow> Inl pn
           | Inr a \<Rightarrow>
               Inr (zeroPeer\<lparr>Peer.Name := Config.Name c,
                      Peer.PublicKey := Public E (PrivateKey (Interface c)),
                      PresharedKey := PresharedKey server,
                      AllowedIPs := [PrefixFrom (ip a) 32]\<rparr>)))"

fun ToClientInfoList :: "'e env_scheme \<Rightarrow> Client list \<Rightarrow> panic + ClientInfo list" where
  "ToClientInfoList E [] = Inr []"
| "ToClientInfoList E (client # clients) =
     (case index0 (Addresses (Interface client)) of
        Inl pn \<Rightarrow> Inl pn
      | Inr a \<Rightarrow>
          (case ToClientInfoList E clients of
             Inl pn \<Rightarrow> Inl pn
           | Inr l \<Rightarrow>
               Inr (\<lparr>ClientInfo.Name = Config.Name client,
                      ClientInfo.PublicKey = Public E (PrivateKey (Interface client)),
                      ClientInfo.CreationDate = Client.CreationDate client,
                      IPAddr = ip a\<rparr> # l)))"

text \<open>\<open>int2ip\<close> writes the number as four bytes, the highest first, and \<open>ip2int\<close> reads
  the four bytes of \<open>As4\<close> back.\<close>

definition int2ip :: "32 word \<Rightarrow> Addr" where
  "int2ip nn = AddrFrom4 (ucast (drop_bit 24 nn)) (ucast (drop_bit 16 nn))
                 (ucast (drop_bit 8 nn)) (ucast nn)"

definition ip2int :: "Addr \<Rightarrow> panic + 32 word" where
  "ip2int a = As4 a"

text \<open>One line of \<open>ParseClientList\<close>.\<close>

definition parseClientLine :: "string \<Rightarrow> error + ClientInfo" where
  "parseClientLine line =
     (let chunks = spacesRE_Split line in
      if length chunks \<noteq> 4
      then Inl (ParseError (''expected 4 chunks in line, got '' @ fmtInt (int (length chunks))) line)
      else
        (case ParseKeyBase64 (chunks ! 1) of
           Inl err \<Rightarrow> Inl err
         | Inr pubKey \<Rightarrow>
             (case ParseInt (chunks ! 2) of
                Inl e \<Rightarrow> Inl (NumError ''ParseInt'' (chunks ! 2) e)
              | Inr creationDate \<Rightarrow>
                  (case ParseUint (chunks ! 3) 32 of
                     Inl e \<Rightarrow> Inl (NumError ''ParseUint'' (chunks ! 3) e)
                   | Inr n \<Rightarrow>
                       Inr \<lparr>ClientInfo.Name = chunks ! 0, ClientInfo.PublicKey = pubKey,
                            ClientInfo.CreationDate = time_Unix creationDate,
                            IPAddr = int2ip (of_nat n)\<rparr>))))"

fun parseClientLines :: "string list \<Rightarrow> error + ClientInfo list" where
  "parseClientLines [] = Inr []"
| "parseClientLines (line # rest) =
     (case parseClientLine line of
        Inl err \<Rightarrow> Inl err
      | Inr info \<Rightarrow>
          (case parseClientLines rest of Inl err \<Rightarrow> Inl err | Inr clients \<Rightarrow> Inr (info # clients)))"

definition ParseClientList :: "string \<Rightarrow> error + ClientInfo list" where
  "ParseClientList input = parseClientLines (scanLines input)"

text \<open>\<open>AsMap\<close> panics at the first name it has already stored.\<close>

fun AsMap_loop :: "(string \<rightharpoonup> ClientInfo) \<Rightarrow> ClientInfo list \<Rightarrow> panic + (string \<rightharpoonup> ClientInfo)" where
  "AsMap_loop m [] = Inr m"
| "AsMap_loop m (info # rest) =
     (if m (ClientInfo.Name info) \<noteq> None then Inl (Panic ''duplicate name in client list'')
      else AsMap_loop (m(ClientInfo.Name info \<mapsto> info)) rest)"

definition AsMap :: "ClientInfo list \<Rightarrow> panic + (string \<rightharpoonup> ClientInfo)" where
  "AsMap c = AsMap_loop Map.empty c"

text \<open>\<open>ClientInfoList.Export\<close>: one line \<open>"%-15s %44s %10d %10d\n"\<close> for every client;
  \<open>ip2int\<close> panics on an address that is not IPv4.\<close>

definition exportClientLine :: "ClientInfo \<Rightarrow> panic + string" where
  "exportClientLine client =
     (case ip2int (IPAddr client) of
        Inl pn \<Rightarrow> Inl pn
      | Inr n \<Rightarrow>
          Inr (padRight 15 (ClientInfo.Name client) @ '' ''
               @ padLeft 44 (Key_String (ClientInfo.PublicKey client)) @ '' ''
               @ padLeft 10 (fmtInt (Unix (ClientInfo.CreationDate client))) @ '' ''
               @ padLeft 10 (fmtInt (uint n)) @ [CHR 0x0A]))"

fun ClientInfoList_Export :: "ClientInfo list \<Rightarrow> panic + string" where
  "ClientInfoList_Export [] = Inr []"
| "ClientInfoList_Export (client # rest) =
     (case exportClientLine client of
        Inl pn \<Rightarrow> Inl pn
      | Inr line \<Rightarrow>
          (case ClientInfoList_Export rest of Inl pn \<Rightarrow> Inl pn | Inr out \<Rightarrow> Inr (line @ out)))"

section \<open>Settings and keys (pkg/pivpn)\<close>

record pivpn_Config =
  DNS :: "Addr list"
  Endpoint :: Endpoint
  UserConfigPath :: string
  all :: "string \<rightharpoonup> string"

text \<open>
  \<open>LoadConfig\<close>. \<open>conf.DNS\<close> starts as one zero \<open>Addr\<close>
  (\<open>make([]netip.Addr, 1, 2)\<close>), which stays when \<open>pivpnDNS1\<close> is not set.
\<close>

definition LoadConfig :: "'e env_scheme \<Rightarrow> string \<Rightarrow> error + pivpn_Config" where
  "LoadConfig E r =
     (case godotenv_Parse E r of
        Inl err \<Rightarrow> Inl err
      | Inr envs \<Rightarrow>
          (case (case envs ''pivpnDNS1'' of
                   None \<Rightarrow> Inr [zeroAddr]
                 | Some dns \<Rightarrow>
                     (case ParseAddr E dns of
                        None \<Rightarrow> Inl (Errorf ''ParseAddr(%q)'' [dns])
                      | Some a \<Rightarrow> Inr [a])) of
             Inl err \<Rightarrow> Inl err
           | Inr dns1 \<Rightarrow>
               (case (case envs ''pivpnDNS2'' of
                        None \<Rightarrow> Inr dns1
                      | Some dns \<Rightarrow>
                          if dns \<noteq> [] then
                            (case ParseAddr E dns of
                               None \<Rightarrow> Inl (Errorf ''ParseAddr(%q)'' [dns])
                             | Some a \<Rightarrow> Inr (dns1 @ [a]))
                          else Inr dns1) of
                  Inl err \<Rightarrow> Inl err
                | Inr dnsAll \<Rightarrow>
                    (case envs ''pivpnHOST'' of
                       None \<Rightarrow> Inl (Errorf ''pivpnHOST was not present in the pivpn setup vars'' [])
                     | Some host \<Rightarrow>
                         (case (case envs ''pivpnPORT'' of
                                  None \<Rightarrow> Inr 0
                                | Some portString \<Rightarrow>
                                    (case ParseUint portString 16 of
                                       Inl e \<Rightarrow> Inl (NumError ''ParseUint'' portString e)
                                     | Inr port \<Rightarrow> Inr (of_nat port))) of
                            Inl err \<Rightarrow> Inl err
                          | Inr port \<Rightarrow>
                              (case envs ''install_home'' of
                                 None \<Rightarrow>
                                   Inl (Errorf ''install_home was not present in the pivpn setup vars'' [])
                               | Some installHome \<Rightarrow>
                                   Inr \<lparr>DNS = dnsAll,
                                        Endpoint = \<lparr>Host = host, Port = port\<rparr>,
                                        UserConfigPath = filepath_Join E installHome ''configs'',
                                        all = envs\<rparr>))))))"

record Keys =
  Name :: string
  PrivateKey :: Key
  PresharedKey :: Key

section \<open>The orchestrator (pkg/pivpn/tunnel.go)\<close>

text \<open>
  The files are a list of paths with their contents, one entry for a path. Writing a
  file fails on the paths of \<open>unwritable\<close> and \<open>os.Chown\<close> on those of
  \<open>unownable\<close>; opening a file fails when the list has none, which is also when
  \<open>os.Stat\<close> reports that it does not exist. \<open>os.DirFS(dir).Open(name)\<close> opens
  \<open>filepath.Join(dir, name)\<close>.
\<close>

record fsys =
  files :: "(string \<times> string) list"
  unwritable :: "string list"
  unownable :: "string list"

definition WriteFile :: "fsys \<Rightarrow> string \<Rightarrow> string \<Rightarrow> error + fsys" where
  "WriteFile fs path data =
     (if path \<in> set (unwritable fs) then Inl (PathError ''open'' path)
      else Inr (fs\<lparr>files := (path, data) # filter (\<lambda>entry. fst entry \<noteq> path) (files fs)\<rparr>))"

definition Chown :: "fsys \<Rightarrow> string \<Rightarrow> error option" where
  "Chown fs path = (if path \<in> set (unownable fs) then Some (PathError ''chown'' path) else None)"

definition Open :: "fsys \<Rightarrow> string \<Rightarrow> error + string" where
  "Open fs path =
     (case map_of (files fs) path of
        None \<Rightarrow> Inl (PathError ''open'' path)
      | Some data \<Rightarrow> Inr data)"

definition pivpnConfigFile :: string where
  "pivpnConfigFile = ''/etc/pivpn/wireguard/setupVars.conf''"

definition pivpnPiholeHostFile :: string where
  "pivpnPiholeHostFile = ''/etc/pivpn/hosts.wireguard''"

definition defaultConfigsDir :: string where
  "defaultConfigsDir = ''/etc/wireguard/configs''"

definition defaultTunnelDir :: string where
  "defaultTunnelDir = ''/etc/wireguard/''"

definition defaultKeysFilepath :: string where
  "defaultKeysFilepath = ''/etc/wireguard/keys''"

text \<open>The mutex of \<open>Vpn\<close> is left out: the model runs one call at a time.\<close>

record Vpn =
  tunnelFilePath :: string
  configsDir :: string
  keysDir :: string
  Conf :: pivpn_Config
  Server :: Config
  Clients :: "Client list"

text \<open>
  One turn of the loop of \<open>LoadVpnWithLocations\<close> over the peers of the tunnel. The
  function literal returns the error of \<open>file.Close()\<close>, which its deferred call
  stores over the error of \<open>ParseConfig\<close>; closing does not fail in the model, so after
  a parse error both \<open>c\<close> and \<open>err\<close> are nil and \<open>*c\<close> panics, unless the lookup
  in the client map has failed before.
\<close>

definition loadClient ::
  "'e env_scheme \<Rightarrow> fsys \<Rightarrow> string \<Rightarrow> (string \<rightharpoonup> ClientInfo) \<Rightarrow> Peer
     \<Rightarrow> (panic + error + Client) option" where
  "loadClient E fs cdir clientMap peer =
     (case Open fs (filepath_Join E cdir (Peer.Name peer @ ''.conf'')) of
        Inl err \<Rightarrow> Some (Inr (Inl err))
      | Inr file \<Rightarrow>
          (case ParseConfig E file (Peer.Name peer) of
             None \<Rightarrow> None
           | Some parsed \<Rightarrow>
               (case clientMap (Peer.Name peer) of
                  None \<Rightarrow>
                    Some (Inr (Inl (Errorf ''client %s not found in clients.txt'' [Peer.Name peer])))
                | Some client \<Rightarrow>
                    (case parsed of
                       Inl err \<Rightarrow>
                         Some (Inl (Panic ''invalid memory address or nil pointer dereference''))
                     | Inr c \<Rightarrow>
                         Some (Inr (Inr \<lparr>Config.Name = Config.Name c, Interface = Interface c,
                                          Peers = Peers c, Client.Disabled = Peer.Disabled peer,
                                          Client.CreationDate = ClientInfo.CreationDate client\<rparr>))))))"

fun loadClients ::
  "'e env_scheme \<Rightarrow> fsys \<Rightarrow> string \<Rightarrow> (string \<rightharpoonup> ClientInfo) \<Rightarrow> Peer list
     \<Rightarrow> (panic + error + Client list) option" where
  "loadClients E fs cdir clientMap [] = Some (Inr (Inr []))"
| "loadClients E fs cdir clientMap (peer # peers) =
     (case loadClient E fs cdir clientMap peer of
        None \<Rightarrow> None
      | Some (Inl pn) \<Rightarrow> Some (Inl pn)
      | Some (Inr (Inl err)) \<Rightarrow> Some (Inr (Inl err))
      | Some (Inr (Inr client)) \<Rightarrow>
          (case loadClients E fs cdir clientMap peers of
             None \<Rightarrow> None
           | Some (Inl pn) \<Rightarrow> Some (Inl pn)
           | Some (Inr (Inl err)) \<Rightarrow> Some (Inr (Inl err))
           | Some (Inr (Inr clients)) \<Rightarrow> Some (Inr (Inr (client # clients)))))"

text \<open>
  \<open>LoadVpnWithLocations\<close>: \<open>None\<close> when a parse does not return, a panic, an error,
  or the loaded state.
\<close>

definition LoadVpnWithLocations ::
  "'e env_scheme \<Rightarrow> fsys \<Rightarrow> string \<Rightarrow> string \<Rightarrow> string \<Rightarrow> string \<Rightarrow> string
     \<Rightarrow> (panic + error + Vpn) option" where
  "LoadVpnWithLocations E fs name pivpnSetupVars tunnelDir cdir kdir =
     (case Open fs pivpnSetupVars of
        Inl err \<Rightarrow> Some (Inr (Inl err))
      | Inr setupVarsFile \<Rightarrow>
          (case LoadConfig E setupVarsFile of
             Inl err \<Rightarrow> Some (Inr (Inl err))
           | Inr pivpnConf \<Rightarrow>
               (case Open fs (filepath_Join E tunnelDir (name @ ''.conf'')) of
                  Inl err \<Rightarrow> Some (Inr (Inl err))
                | Inr tunnelConfFile \<Rightarrow>
                    (case ParseConfig E tunnelConfFile name of
                       None \<Rightarrow> None
                     | Some (Inl err) \<Rightarrow> Some (Inr (Inl err))
                     | Some (Inr tunnelConf) \<Rightarrow>
                         (case Open fs (filepath_Join E cdir ''clients.txt'') of
                            Inl err \<Rightarrow> Some (Inr (Inl err))
                          | Inr clientsFile \<Rightarrow>
                              (case ParseClientList clientsFile of
                                 Inl err \<Rightarrow> Some (Inr (Inl err))
                               | Inr clients \<Rightarrow>
                                   (case AsMap clients of
                                      Inl pn \<Rightarrow> Some (Inl pn)
                                    | Inr clientMap \<Rightarrow>
                                        (case loadClients E fs cdir clientMap (Peers tunnelConf) of
                                           None \<Rightarrow> None
                                         | Some (Inl pn) \<Rightarrow> Some (Inl pn)
                                         | Some (Inr (Inl err)) \<Rightarrow> Some (Inr (Inl err))
                                         | Some (Inr (Inr cs)) \<Rightarrow>
                                             Some (Inr (Inr
                                               \<lparr>tunnelFilePath = filepath_Join E tunnelDir (name @ ''.conf''),
                                                configsDir = cdir, keysDir = kdir,
                                                Conf = pivpnConf, Server = tunnelConf,
                                                Clients = cs\<rparr>))))))))))"

definition LoadVpn :: "'e env_scheme \<Rightarrow> fsys \<Rightarrow> (panic + error + Vpn) option" where
  "LoadVpn E fs =
     LoadVpnWithLocations E fs ''wg0'' pivpnConfigFile defaultTunnelDir defaultConfigsDir
       defaultKeysFilepath"

definition SyncTunnel :: "'e env_scheme \<Rightarrow> Vpn \<Rightarrow> fsys \<Rightarrow> error option \<times> fsys" where
  "SyncTunnel E t fs =
     (case WriteFile fs (tunnelFilePath t) (Export E (Server t)) of
        Inl err \<Rightarrow> (Some err, fs)
      | Inr fs' \<Rightarrow> (None, fs'))"

definition SyncClients :: "'e env_scheme \<Rightarrow> Vpn \<Rightarrow> fsys \<Rightarrow> panic + error option \<times> fsys" where
  "SyncClients E t fs =
     (case ToClientInfoList E (Clients t) of
        Inl pn \<Rightarrow> Inl pn
      | Inr l \<Rightarrow>
          (case ClientInfoList_Export l of
             Inl pn \<Rightarrow> Inl pn
           | Inr data \<Rightarrow>
               (case WriteFile fs (filepath_Join E (configsDir t) ''clients.txt'') data of
                  Inl err \<Rightarrow> Inr (Some err, fs)
                | Inr fs' \<Rightarrow> Inr (None, fs'))))"

text \<open>The lines of \<open>SyncPihole\<close> for the clients, \<open>"%s %s.pivpn\n"\<close> each.\<close>

fun piholeLines :: "'e env_scheme \<Rightarrow> Client list \<Rightarrow> panic + string" where
  "piholeLines E [] = Inr []"
| "piholeLines E (client # clients) =
     (case index0 (Addresses (Interface client)) of
        Inl pn \<Rightarrow> Inl pn
      | Inr a \<Rightarrow>
          (case piholeLines E clients of
             Inl pn \<Rightarrow> Inl pn
           | Inr out \<Rightarrow>
               Inr (Addr_String E (ip a) @ '' '' @ DNSName client @ ''.pivpn'' @ [CHR 0x0A] @ out)))"

definition SyncPihole :: "'e env_scheme \<Rightarrow> Vpn \<Rightarrow> fsys \<Rightarrow> panic + error option \<times> fsys" where
  "SyncPihole E t fs =
     (if map_of (files fs) pivpnPiholeHostFile = None then Inr (None, fs)
      else
        (case index0 (Addresses (Interface (Server t))) of
           Inl pn \<Rightarrow> Inl pn
         | Inr a \<Rightarrow>
             (case piholeLines E (Clients t) of
                Inl pn \<Rightarrow> Inl pn
              | Inr out \<Rightarrow>
                  (case WriteFile fs pivpnPiholeHostFile
                          (Addr_String E (ip a) @ '' '' @ ''server'' @ ''.pivpn'' @ [CHR 0x0A] @ out) of
                     Inl err \<Rightarrow> Inr (Some err, fs)
                   | Inr fs' \<Rightarrow> Inr (None, fs')))))"

subsection \<open>AddClient\<close>

definition clientNameRE :: "string \<Rightarrow> bool" where
  "clientNameRE name = (1 \<le> length name \<and> length name \<le> 15 \<and> list_all nameChar name)"

text \<open>\<open>^[a-zA-Z0-9.@_-]*[^0-9][a-zA-Z0-9.@_-]*$\<close>: some character that is no digit,
  between characters of the class.\<close>

fun clientNameNonDigitRE :: "string \<Rightarrow> bool" where
  "clientNameNonDigitRE [] = False"
| "clientNameNonDigitRE (c # s) =
     ((\<not> isDigit c \<and> list_all nameChar s) \<or> (nameChar c \<and> clientNameNonDigitRE s))"

text \<open>\<open>netip.MustParsePrefix("0.0.0.0/0")\<close> and \<open>netip.MustParsePrefix("::0/0")\<close>.\<close>

definition ipv4All :: Prefix where
  "ipv4All = PrefixFrom (AddrFrom4 0 0 0 0) 0"

definition ipv6All :: Prefix where
  "ipv6All = PrefixFrom \<lparr>addr = 0, z = z6 []\<rparr> 0"

text \<open>The four tests at the head of \<open>AddClient\<close>.\<close>

definition rejectName :: "Vpn \<Rightarrow> string \<Rightarrow> error option" where
  "rejectName t name =
     (if \<not> clientNameRE name then
        Some (Errorf ''invalid client name %q: name must only contains alphanumerical, period, @, underscore, and hyphen; and be between 1 and 15 characters'' [name])
      else if \<not> clientNameNonDigitRE name then
        Some (Errorf ''invalid client name %q: client name must contain at least one digit'' [name])
      else if name = ''server'' then
        Some (Errorf ''invalid client name %q: client name must not match %q'' [name, ''server''])
      else if list_ex (\<lambda>c. Config.Name c = name) (Clients t) then Some ClientNameExistsErr
      else None)"

text \<open>The map \<open>ips\<close>, as the list of its keys.\<close>

fun clientIPs :: "Client list \<Rightarrow> panic + Addr list" where
  "clientIPs [] = Inr []"
| "clientIPs (client # clients) =
     (case index0 (Addresses (Interface client)) of
        Inl pn \<Rightarrow> Inl pn
      | Inr a \<Rightarrow> (case clientIPs clients of Inl pn \<Rightarrow> Inl pn | Inr ips \<Rightarrow> Inr (ip a # ips)))"

text \<open>
  The search for the next usable address. The loop has no bound of its own; \<open>None\<close>
  is the search that does not end.
\<close>

partial_function (option) nextUsable :: "Addr list \<Rightarrow> Prefix \<Rightarrow> Addr \<Rightarrow> (error + Addr) option" where
  "nextUsable ips netblock a =
     (if a \<in> set ips then nextUsable ips netblock (Next a)
      else if \<not> Contains netblock a
        then Some (Inl (Errorf ''unable to add client: tunnel as no usable IP addresses left'' []))
      else Some (Inr a))"

definition newClient :: "'e env_scheme \<Rightarrow> Keys \<Rightarrow> Time \<Rightarrow> Vpn \<Rightarrow> string \<Rightarrow> Addr \<Rightarrow> Prefix \<Rightarrow> Client" where
  "newClient E keys now t name a netblock =
     \<lparr>Config.Name = name,
      Interface = zeroInterface\<lparr>Interface.PrivateKey := Keys.PrivateKey keys,
                    Addresses := [PrefixFrom a (Bits netblock)],
                    Interface.DNS := pivpn_Config.DNS (Conf t)\<rparr>,
      Peers = [zeroPeer\<lparr>Peer.PublicKey := Public E (Interface.PrivateKey (Interface (Server t))),
                 Peer.PresharedKey := Keys.PresharedKey keys,
                 AllowedIPs := [ipv4All, ipv6All],
                 Peer.Endpoint := pivpn_Config.Endpoint (Conf t),
                 PersistentKeepalive := 25\<rparr>],
      Client.Disabled = False,
      Client.CreationDate = now\<rparr>"

definition saveKey :: "fsys \<Rightarrow> string \<Rightarrow> string \<Rightarrow> error option \<times> fsys" where
  "saveKey fs keyB64 filename =
     (case WriteFile fs filename keyB64 of
        Inl err \<Rightarrow> (Some (IoError err filename), fs)
      | Inr fs' \<Rightarrow>
          (case Chown fs' filename of
             Some err \<Rightarrow> (Some (IoError err filename), fs')
           | None \<Rightarrow> (None, fs')))"

text \<open>The three key files, in the order of the code.\<close>

definition saveKeys :: "'e env_scheme \<Rightarrow> Keys \<Rightarrow> Vpn \<Rightarrow> fsys \<Rightarrow> string \<Rightarrow> error option \<times> fsys" where
  "saveKeys E keys t fs name =
     (case saveKey fs (Key_String (Keys.PrivateKey keys)) (filepath_Join E (keysDir t) (name @ ''_priv'')) of
        (Some err, fs1) \<Rightarrow> (Some err, fs1)
      | (None, fs1) \<Rightarrow>
          (case saveKey fs1 (Key_String (Public E (Keys.PrivateKey keys)))
                  (filepath_Join E (keysDir t) (name @ ''_pub'')) of
             (Some err, fs2) \<Rightarrow> (Some err, fs2)
           | (None, fs2) \<Rightarrow>
               saveKey fs2 (Key_String (Keys.PresharedKey keys))
                 (filepath_Join E (keysDir t) (name @ ''_psk''))))"

text \<open>
  \<open>AddClient\<close> from \<open>// save client\<close> on: the files and the state, step by step;
  an error leaves what the steps before it have done.
\<close>

definition saveClient ::
  "'e env_scheme \<Rightarrow> Keys \<Rightarrow> Vpn \<Rightarrow> fsys \<Rightarrow> string \<Rightarrow> Client \<Rightarrow> panic + error option \<times> Vpn \<times> fsys" where
  "saveClient E keys t fs name client =
     (case WriteFile fs (filepath_Join E (configsDir t) (name @ ''.conf'')) (Export E client) of
        Inl err \<Rightarrow> Inr (Some err, t, fs)
      | Inr fs1 \<Rightarrow>
          (case saveKeys E keys t fs1 name of
             (Some err, fs2) \<Rightarrow> Inr (Some err, t, fs2)
           | (None, fs2) \<Rightarrow>
               (let t1 = t\<lparr>Clients := Clients t @ [client]\<rparr> in
                case SyncClients E t1 fs2 of
                  Inl pn \<Rightarrow> Inl pn
                | Inr (Some err, fs3) \<Rightarrow> Inr (Some err, t1, fs3)
                | Inr (None, fs3) \<Rightarrow>
                    (case ToPeer E client of
                       Inl pn \<Rightarrow> Inl pn
                     | Inr clientPeer \<Rightarrow>
                         (let t2 = t1\<lparr>Server := (Server t1)\<lparr>Peers := Peers (Server t1)
                                      @ [clientPeer\<lparr>Peer.PresharedKey := Keys.PresharedKey keys\<rparr>]\<rparr>\<rparr>
                          in case SyncTunnel E t2 fs3 of
                               (Some err, fs4) \<Rightarrow> Inr (Some err, t2, fs4)
                             | (None, fs4) \<Rightarrow>
                                 (case SyncPihole E t2 fs4 of
                                    Inl pn \<Rightarrow> Inl pn
                                  | Inr (Some err, fs5) \<Rightarrow> Inr (Some err, t2, fs5)
                                  | Inr (None, fs5) \<Rightarrow>
                                      (case WriteFile fs5
                                              (filepath_Join E (UserConfigPath (Conf t2)) (name @ ''.conf''))
                                              (Export E client) of
                                         Inl err \<Rightarrow> Inr (Some err, t2, fs5)
                                       | Inr fs6 \<Rightarrow> Inr (None, t2, fs6))))))))"

text \<open>
  \<open>AddClient\<close>. The keys of \<open>NewKeys\<close> and the time of \<open>time.Now()\<close> are arguments;
  the result is the error, the state and the files as the call leaves them, a panic, or
  \<open>None\<close> when the search for an address does not end.
\<close>

definition AddClient ::
  "'e env_scheme \<Rightarrow> Keys \<Rightarrow> Time \<Rightarrow> Vpn \<Rightarrow> fsys \<Rightarrow> string
     \<Rightarrow> (panic + error option \<times> Vpn \<times> fsys) option" where
  "AddClient E keys now t fs name =
     (case rejectName t name of
        Some err \<Rightarrow> Some (Inr (Some err, t, fs))
      | None \<Rightarrow>
          (case index0 (Addresses (Interface (Server t))) of
             Inl pn \<Rightarrow> Some (Inl pn)
           | Inr netblock \<Rightarrow>
               (case clientIPs (Clients t) of
                  Inl pn \<Rightarrow> Some (Inl pn)
                | Inr ips \<Rightarrow>
                    (case nextUsable ips netblock (Next (ip netblock)) of
                       None \<Rightarrow> None
                     | Some (Inl err) \<Rightarrow> Some (Inr (Some err, t, fs))
                     | Some (Inr a) \<Rightarrow>
                         Some (saveClient E keys t fs name
                                 (newClient E keys now t name a netblock))))))"

section \<open>An instance of the parameters\<close>

text \<open>
  For evaluation on concrete inputs: the text of IPv4 addresses and prefixes as
  \<open>net/netip\<close> reads and writes it (four decimal fields of at most 255 without
  leading zeros; a prefix length without sign or leading zeros). The instance reads no
  IPv6 text and writes every address that is not IPv4 as the zero \<open>Addr\<close>. Its
  \<open>Public\<close> is a stand-in that only tells keys apart, its \<open>filepath_Join\<close> puts one
  slash between directory and name, and its settings are fixed.
\<close>

definition octet :: "string \<Rightarrow> byte option" where
  "octet s =
     (if s = [] \<or> (length s > 1 \<and> hd s = CHR ''0'') then None
      else (case ParseUint s 8 of Inl e \<Rightarrow> None | Inr n \<Rightarrow> Some (of_nat n)))"

definition ParseAddr4 :: "string \<Rightarrow> Addr option" where
  "ParseAddr4 s =
     (case map octet (Split s (CHR ''.'')) of
        [Some b0, Some b1, Some b2, Some b3] \<Rightarrow> Some (AddrFrom4 b0 b1 b2 b3)
      | _ \<Rightarrow> None)"

definition Addr4_String :: "Addr \<Rightarrow> string" where
  "Addr4_String a =
     (if z a = z4 then
        fmtInt (uint (ucast (drop_bit 24 (addr a)) :: byte)) @ ''.''
        @ fmtInt (uint (ucast (drop_bit 16 (addr a)) :: byte)) @ ''.''
        @ fmtInt (uint (ucast (drop_bit 8 (addr a)) :: byte)) @ ''.''
        @ fmtInt (uint (ucast (addr a) :: byte))
      else ''invalid IP'')"

definition ParsePrefix4 :: "string \<Rightarrow> Prefix option" where
  "ParsePrefix4 s =
     (let i = LastIndexByte s (CHR ''/'') in
      if i < 0 then None
      else
        (case ParseAddr4 (take (nat i) s) of
           None \<Rightarrow> None
         | Some a \<Rightarrow>
             (let bitsStr = drop (nat (i + 1)) s in
              if length bitsStr > 1 \<and> (hd bitsStr = CHR ''0'' \<or> \<not> isDigit (hd bitsStr)) then None
              else (case Atoi bitsStr of
                      Inl err \<Rightarrow> None
                    | Inr bits \<Rightarrow> if bits < 0 \<or> bits > 32 then None else Some (PrefixFrom a bits)))))"

definition Prefix4_String :: "Prefix \<Rightarrow> string" where
  "Prefix4_String p =
     (if \<not> Prefix_IsValid p then ''invalid Prefix''
      else Addr4_String (ip p) @ ''/'' @ fmtInt (Bits p))"

definition demoEnv :: env where
  "demoEnv =
     \<lparr>ParseAddr = ParseAddr4, ParsePrefix = ParsePrefix4,
      Addr_String = Addr4_String, Prefix_String = Prefix4_String,
      Public = map (\<lambda>b. b XOR 0x55),
      filepath_Join = (\<lambda>dir name. if dir \<noteq> [] \<and> last dir = CHR ''/'' then dir @ name
                                   else dir @ ''/'' @ name),
      godotenv_Parse = (\<lambda>r. Inr [''pivpnHOST'' \<mapsto> ''vpn.example.org'', ''pivpnPORT'' \<mapsto> ''51820'',
                                 ''pivpnDNS1'' \<mapsto> ''10.0.0.1'', ''install_home'' \<mapsto> ''/home/pi''])\<rparr>"

text \<open>A state and a client to evaluate the orchestrator on.\<close>

definition demoVpn :: "Client list \<Rightarrow> Vpn" where
  "demoVpn clients =
     \<lparr>tunnelFilePath = ''/etc/wireguard/wg0.conf'', configsDir = ''/etc/wireguard/configs'',
      keysDir = ''/etc/wireguard/keys'',
      Conf = \<lparr>DNS = [AddrFrom4 10 0 0 1],
               Endpoint = \<lparr>Host = ''vpn.example.org'', Port = 51820\<rparr>,
               UserConfigPath = ''/home/pi/configs'', all = Map.empty\<rparr>,
      Server = \<lparr>Config.Name = ''wg0'',
                 Interface = zeroInterface\<lparr>Addresses := [PrefixFrom (AddrFrom4 10 0 0 1) 24]\<rparr>,
                 Peers = []\<rparr>,
      Clients = clients\<rparr>"

definition demoClient :: "string \<Rightarrow> Addr \<Rightarrow> Client" where
  "demoClient name a =
     \<lparr>Config.Name = name, Interface = zeroInterface\<lparr>Addresses := [PrefixFrom a 24]\<rparr>,
      Peers = [], Client.Disabled = False, Client.CreationDate = time_Unix 0\<rparr>"

definition demoKey :: Key where
  "demoKey = [1, 2, 3, 4, 5, 6, 7, 8, 9, 10, 11, 12, 13, 14, 15, 16, 17, 18, 19, 20, 21, 22,
     23, 24, 25, 26, 27, 28, 29, 30, 31, 32]"

definition demoRegistry :: string where
  "demoRegistry =
     ''alice           AQIDBAUGBwgJCgsMDQ4PEBESExQVFhcYGRobHB0eHyA= 1700000000  167772162'' @ [CHR 0x0A]
     @ ''alice           AQIDBAUGBwgJCgsMDQ4PEBESExQVFhcYGRobHB0eHyA= 1700000000  167772162'' @ [CHR 0x0A]"

definition demoFiles :: fsys where
  "demoFiles =
     \<lparr>files = [(''/etc/pivpn/wireguard/setupVars.conf'', ''x''),
               (''/etc/wireguard/wg0.conf'', ''[Interface]'' @ [CHR 0x0A]
                  @ ''PrivateKey = AQIDBAUGBwgJCgsMDQ4PEBESExQVFhcYGRobHB0eHyA='' @ [CHR 0x0A]),
               (''/etc/wireguard/configs/clients.txt'', demoRegistry)],
      unwritable = [], unownable = []\<rparr>"

text \<open>
  Keys for a new client, a file system with no file that refuses no write, and the
  clients that hold the addresses \<open>10.0.0.k\<close> for the \<open>k\<close> of a list.
\<close>

definition demoKeys :: Keys where
  "demoKeys = \<lparr>Keys.Name = ''carol'', Keys.PrivateKey = demoKey, Keys.PresharedKey = demoKey\<rparr>"

definition emptyFiles :: fsys where
  "emptyFiles = \<lparr>files = [], unwritable = [], unownable = []\<rparr>"

definition demoClients :: "nat list \<Rightarrow> Client list" where
  "demoClients ks = map (\<lambda>k. demoClient (''n'' @ fmtInt (int k)) (AddrFrom4 10 0 0 (of_nat k))) ks"

section \<open>Properties of the peer registry mutators\<close>

lemma lastIndex_absent:
  "\<forall>p \<in> set ps. Peer.Name p \<noteq> name \<Longrightarrow> lastIndex name ps i idx = idx"
  by (induction ps arbitrary: i idx) auto

lemma lastIndex_last:
  "Peer.Name p = name \<Longrightarrow> \<forall>q \<in> set post. Peer.Name q \<noteq> name \<Longrightarrow>
   lastIndex name (pre @ p # post) i idx = i + int (length pre)"
  by (induction pre arbitrary: i idx) (auto simp: lastIndex_absent)

lemma lastIndex_at:
  "Peer.Name p = name \<Longrightarrow> \<forall>q \<in> set post. Peer.Name q \<noteq> name \<Longrightarrow>
   lastIndex name (pre @ p # post) 0 (-1) = int (length pre)"
  using lastIndex_last [of p name post pre 0 "-1"] by simp

text \<open>
  C6. \<open>AddPeer\<close> returns an error and leaves the configuration as it was when the new
  peer's name is empty or is the name of a peer already present, and appends the peer
  otherwise; \<open>RemovePeer\<close>, \<open>EnablePeer\<close> and \<open>DisablePeer\<close> with a name that no peer
  carries return the not-found error and leave the configuration as it was.
\<close>

theorem mutators_reject:
  "(Peer.Name peer = [] \<or> (\<exists>p \<in> set (Peers c). Peer.Name p = Peer.Name peer)
      \<longrightarrow> (\<exists>e. AddPeer c peer = (Some e, c)))
   \<and> (Peer.Name peer \<noteq> [] \<and> (\<forall>p \<in> set (Peers c). Peer.Name p \<noteq> Peer.Name peer)
      \<longrightarrow> AddPeer c peer = (None, c\<lparr>Peers := Peers c @ [peer]\<rparr>))
   \<and> ((\<forall>p \<in> set (Peers c). Peer.Name p \<noteq> name)
      \<longrightarrow> RemovePeer c name = (Some PeerNotFound, c)
        \<and> EnablePeer c name = (Some PeerNotFound, c)
        \<and> DisablePeer c name = (Some PeerNotFound, c))"
  by (auto simp: AddPeer_def RemovePeer_def EnablePeer_def DisablePeer_def
      list_ex_iff lastIndex_absent)

theorem mutators_reject_witness:
  "AddPeer \<lparr>Config.Name = ''wg0'', Interface = zeroInterface,
       Peers = [zeroPeer\<lparr>Peer.Name := ''alice''\<rparr>]\<rparr> (zeroPeer\<lparr>Peer.Name := ''bob''\<rparr>)
     = (None, \<lparr>Config.Name = ''wg0'', Interface = zeroInterface,
          Peers = [zeroPeer\<lparr>Peer.Name := ''alice''\<rparr>, zeroPeer\<lparr>Peer.Name := ''bob''\<rparr>]\<rparr>)
   \<and> (\<exists>e. AddPeer \<lparr>Config.Name = ''wg0'', Interface = zeroInterface,
       Peers = [zeroPeer\<lparr>Peer.Name := ''bob''\<rparr>]\<rparr> (zeroPeer\<lparr>Peer.Name := ''bob''\<rparr>)
     = (Some e, \<lparr>Config.Name = ''wg0'', Interface = zeroInterface,
          Peers = [zeroPeer\<lparr>Peer.Name := ''bob''\<rparr>]\<rparr>))
   \<and> RemovePeer \<lparr>Config.Name = ''wg0'', Interface = zeroInterface,
       Peers = [zeroPeer\<lparr>Peer.Name := ''alice''\<rparr>]\<rparr> ''bob''
     = (Some PeerNotFound, \<lparr>Config.Name = ''wg0'', Interface = zeroInterface,
          Peers = [zeroPeer\<lparr>Peer.Name := ''alice''\<rparr>]\<rparr>)"
  using mutators_reject [of "zeroPeer\<lparr>Peer.Name := ''bob''\<rparr>"
      "\<lparr>Config.Name = ''wg0'', Interface = zeroInterface,
         Peers = [zeroPeer\<lparr>Peer.Name := ''alice''\<rparr>]\<rparr>" "''bob''"]
    mutators_reject [of "zeroPeer\<lparr>Peer.Name := ''bob''\<rparr>"
      "\<lparr>Config.Name = ''wg0'', Interface = zeroInterface,
         Peers = [zeroPeer\<lparr>Peer.Name := ''bob''\<rparr>]\<rparr>" "''bob''"]
  by (simp add: zeroPeer_def)

text \<open>
  C7. When several peers carry the given name, the three mutators act on the last of
  them in list order: with \<open>p\<close> of that name and no peer of that name after it,
  \<open>RemovePeer\<close> drops \<open>p\<close>, \<open>EnablePeer\<close> and \<open>DisablePeer\<close> set the flag of \<open>p\<close>, and
  every peer before \<open>p\<close> stays as it was, whatever its name.
\<close>

theorem mutators_last_match:
  assumes "Peers c = pre @ p # post"
    and "Peer.Name p = name"
    and "\<forall>q \<in> set post. Peer.Name q \<noteq> name"
  shows "RemovePeer c name = (None, c\<lparr>Peers := pre @ post\<rparr>)
    \<and> EnablePeer c name = (None, c\<lparr>Peers := pre @ p\<lparr>Peer.Disabled := False\<rparr> # post\<rparr>)
    \<and> DisablePeer c name = (None, c\<lparr>Peers := pre @ p\<lparr>Peer.Disabled := True\<rparr> # post\<rparr>)"
proof -
  have idx: "lastIndex name (pre @ p # post) 0 (-1) = int (length pre)"
    using assms(2,3) by (rule lastIndex_at)
  show ?thesis
    by (simp add: RemovePeer_def EnablePeer_def DisablePeer_def assms(1) idx)
qed

theorem mutators_last_match_witness:
  "RemovePeer \<lparr>Config.Name = ''wg0'', Interface = zeroInterface,
       Peers = [zeroPeer\<lparr>Peer.Name := ''bob''\<rparr>,
                zeroPeer\<lparr>Peer.Name := ''bob'', PersistentKeepalive := 25\<rparr>,
                zeroPeer\<lparr>Peer.Name := ''carol''\<rparr>]\<rparr> ''bob''
     = (None, \<lparr>Config.Name = ''wg0'', Interface = zeroInterface,
          Peers = [zeroPeer\<lparr>Peer.Name := ''bob''\<rparr>, zeroPeer\<lparr>Peer.Name := ''carol''\<rparr>]\<rparr>)
   \<and> DisablePeer \<lparr>Config.Name = ''wg0'', Interface = zeroInterface,
       Peers = [zeroPeer\<lparr>Peer.Name := ''bob''\<rparr>,
                zeroPeer\<lparr>Peer.Name := ''bob'', PersistentKeepalive := 25\<rparr>,
                zeroPeer\<lparr>Peer.Name := ''carol''\<rparr>]\<rparr> ''bob''
     = (None, \<lparr>Config.Name = ''wg0'', Interface = zeroInterface,
          Peers = [zeroPeer\<lparr>Peer.Name := ''bob''\<rparr>,
                   zeroPeer\<lparr>Peer.Name := ''bob'', Peer.Disabled := True, PersistentKeepalive := 25\<rparr>,
                   zeroPeer\<lparr>Peer.Name := ''carol''\<rparr>]\<rparr>)"
proof -
  let ?b1 = "zeroPeer\<lparr>Peer.Name := ''bob''\<rparr>"
  let ?b2 = "zeroPeer\<lparr>Peer.Name := ''bob'', PersistentKeepalive := 25\<rparr>"
  let ?cc = "zeroPeer\<lparr>Peer.Name := ''carol''\<rparr>"
  let ?c = "\<lparr>Config.Name = ''wg0'', Interface = zeroInterface, Peers = [?b1, ?b2, ?cc]\<rparr>"
  have h1: "Peers ?c = [?b1] @ ?b2 # [?cc]" by simp
  have h2: "Peer.Name ?b2 = ''bob''" by simp
  have h3: "\<forall>q \<in> set [?cc]. Peer.Name q \<noteq> ''bob''" by simp
  show ?thesis
    using mutators_last_match [OF h1 h2 h3] by (simp add: zeroPeer_def)
qed


section \<open>Properties of the orchestrator\<close>

subsection \<open>Names in the host file\<close>

lemma dropWhile_invalid_run:
  "\<forall>x \<in> set bad. \<not> dnsChar x \<Longrightarrow> post = [] \<or> dnsChar (hd post)
   \<Longrightarrow> dropWhile (\<lambda>x. \<not> dnsChar x) (bad @ post) = post"
  by (induction bad) (cases post; auto)+

lemma replace_run:
  "bad \<noteq> [] \<Longrightarrow> \<forall>x \<in> set bad. \<not> dnsChar x \<Longrightarrow> pre = [] \<or> dnsChar (last pre)
   \<Longrightarrow> post = [] \<or> dnsChar (hd post)
   \<Longrightarrow> invalidDNSChars_Replace (pre @ bad @ post)
       = invalidDNSChars_Replace pre @ ''-'' @ invalidDNSChars_Replace post"
proof (induction pre rule: invalidDNSChars_Replace.induct)
  case 1
  then obtain b bs where bad: "bad = b # bs" by (cases bad) auto
  with 1 have "dropWhile (\<lambda>x. \<not> dnsChar x) (bs @ post) = post"
    by (intro dropWhile_invalid_run) auto
  with 1 bad show ?case by simp
next
  case (2 c s)
  show ?case
  proof (cases "dnsChar c")
    case True
    with 2 show ?thesis by (cases "s = []") auto
  next
    case False
    with "2.prems" have s: "s \<noteq> []" "dnsChar (last s)" by (auto split: if_splits)
    let ?s' = "dropWhile (\<lambda>x. \<not> dnsChar x) s"
    from s have mem: "\<exists>x \<in> set s. dnsChar x" using last_in_set by blast
    then have s': "?s' \<noteq> []" by (simp add: dropWhile_eq_Nil_conv)
    have "last ?s' = last s" using s' by (metis last_appendR takeWhile_dropWhile_id)
    with s s' have ok: "?s' = [] \<or> dnsChar (last ?s')" by simp
    have app: "dropWhile (\<lambda>x. \<not> dnsChar x) (s @ bad @ post) = ?s' @ bad @ post"
      using mem by (auto simp: dropWhile_append1)
    show ?thesis
      using False "2.IH"(2) [OF False "2.prems"(1,2) ok "2.prems"(4)] by (simp add: app)
  qed
qed

lemma replace_valid: "\<forall>x \<in> set s. dnsChar x \<Longrightarrow> invalidDNSChars_Replace s = s"
  by (induction s) auto

lemma piholeLines_exact:
  "piholeLines E clients = Inr out
   \<Longrightarrow> out = concat (map (\<lambda>c. Addr_String E (ip (hd (Addresses (Interface c)))) @ '' ''
                          @ DNSName c @ ''.pivpn'' @ [CHR 0x0A]) clients)
     \<and> (\<forall>c \<in> set clients. Addresses (Interface c) \<noteq> [])"
proof (induction clients arbitrary: out)
  case Nil
  then show ?case by simp
next
  case (Cons x xs)
  from Cons.prems obtain a rest where a: "index0 (Addresses (Interface x)) = Inr a"
    and rest: "piholeLines E xs = Inr rest"
    and out: "out = Addr_String E (ip a) @ '' '' @ DNSName x @ ''.pivpn'' @ [CHR 0x0A] @ rest"
    by (auto split: sum.splits)
  from a have hd: "Addresses (Interface x) \<noteq> []" "hd (Addresses (Interface x)) = a"
    by (auto simp: index0_def split: list.splits)
  from Cons.IH [OF rest] out hd show ?case by simp
qed

lemma AddrFrom4_10_0_0_2: "AddrFrom4 10 0 0 2 = \<lparr>addr = 0xFFFF0A000002, z = z4\<rparr>"
  by (simp add: AddrFrom4_def)
lemma Addr4_String_10_0_0_2: "Addr4_String \<lparr>addr = 0xFFFF0A000002, z = z4\<rparr> = ''10.0.0.2''"
  by (simp add: Addr4_String_def fmtInt_def natDigits.simps)
lemma replace_a_b: "invalidDNSChars_Replace ''a..b'' = ''a-b''"
  by (simp add: dnsChar_def isAlnum_def isDigit_def)
lemma AddrFrom4_10_0_0_1: "AddrFrom4 10 0 0 1 = \<lparr>addr = 0xFFFF0A000001, z = z4\<rparr>"
  by (simp add: AddrFrom4_def)
lemma Addr4_String_10_0_0_1: "Addr4_String \<lparr>addr = 0xFFFF0A000001, z = z4\<rparr> = ''10.0.0.1''"
  by (simp add: Addr4_String_def fmtInt_def natDigits.simps)

text \<open>
  C5, as amended. The host file that \<open>SyncPihole\<close> writes is the line of the server
  followed by one line for each client, in the order of the registry: the client's
  first address, a space, the name as \<open>DNSName\<close> gives it, and the suffix
  \<open>.pivpn\<close>. A name of characters of \<open>[A-Za-z0-9-]\<close> only stays as it is, and a
  longest run of other characters, however long, becomes one hyphen.
\<close>

theorem pihole_name_runs:
  assumes "SyncPihole E t fs = Inr (None, fs')"
    and "map_of (files fs) pivpnPiholeHostFile \<noteq> None"
  shows "Addresses (Interface (Server t)) \<noteq> []
    \<and> (\<forall>c \<in> set (Clients t). Addresses (Interface c) \<noteq> [])
    \<and> map_of (files fs') pivpnPiholeHostFile
        = Some (Addr_String E (ip (hd (Addresses (Interface (Server t))))) @ '' server.pivpn'' @ [CHR 0x0A]
                @ concat (map (\<lambda>c. Addr_String E (ip (hd (Addresses (Interface c)))) @ '' ''
                                  @ DNSName c @ ''.pivpn'' @ [CHR 0x0A]) (Clients t)))
    \<and> (\<forall>c \<in> set (Clients t).
          ((\<forall>x \<in> set (Config.Name c). dnsChar x) \<longrightarrow> DNSName c = Config.Name c)
        \<and> (\<forall>pre bad post. Config.Name c = pre @ bad @ post \<and> bad \<noteq> []
              \<and> (\<forall>x \<in> set bad. \<not> dnsChar x)
              \<and> (pre = [] \<or> dnsChar (last pre)) \<and> (post = [] \<or> dnsChar (hd post))
            \<longrightarrow> DNSName c = invalidDNSChars_Replace pre @ ''-'' @ invalidDNSChars_Replace post))"
proof -
  from assms obtain a where a: "index0 (Addresses (Interface (Server t))) = Inr a"
    by (cases "index0 (Addresses (Interface (Server t)))") (auto simp: SyncPihole_def)
  from assms a obtain out where out: "piholeLines E (Clients t) = Inr out"
    by (cases "piholeLines E (Clients t)") (auto simp: SyncPihole_def)
  from assms a out have fs': "fs' = fs\<lparr>files := (pivpnPiholeHostFile,
        Addr_String E (ip a) @ '' '' @ ''server'' @ ''.pivpn'' @ [CHR 0x0A] @ out)
        # filter (\<lambda>entry. fst entry \<noteq> pivpnPiholeHostFile) (files fs)\<rparr>"
    by (auto simp: SyncPihole_def WriteFile_def split: if_splits)
  from a have hd: "Addresses (Interface (Server t)) \<noteq> []"
      "hd (Addresses (Interface (Server t))) = a"
    by (auto simp: index0_def split: list.splits)
  note ex = piholeLines_exact [OF out]
  have content: "map_of (files fs') pivpnPiholeHostFile
        = Some (Addr_String E (ip (hd (Addresses (Interface (Server t))))) @ '' server.pivpn'' @ [CHR 0x0A]
                @ concat (map (\<lambda>c. Addr_String E (ip (hd (Addresses (Interface c)))) @ '' ''
                                  @ DNSName c @ ''.pivpn'' @ [CHR 0x0A]) (Clients t)))"
    using ex hd by (simp add: fs')
  have names: "\<forall>c \<in> set (Clients t).
          ((\<forall>x \<in> set (Config.Name c). dnsChar x) \<longrightarrow> DNSName c = Config.Name c)
        \<and> (\<forall>pre bad post. Config.Name c = pre @ bad @ post \<and> bad \<noteq> []
              \<and> (\<forall>x \<in> set bad. \<not> dnsChar x)
              \<and> (pre = [] \<or> dnsChar (last pre)) \<and> (post = [] \<or> dnsChar (hd post))
            \<longrightarrow> DNSName c = invalidDNSChars_Replace pre @ ''-'' @ invalidDNSChars_Replace post)"
    by (auto simp: DNSName_def replace_valid replace_run)
  from hd(1) ex content names show ?thesis by blast
qed

theorem pihole_name_runs_witness:
  "map_of [(pivpnPiholeHostFile,
            ''10.0.0.1 server.pivpn'' @ [CHR 0x0A] @ ''10.0.0.2 a-b.pivpn'' @ [CHR 0x0A])]
       pivpnPiholeHostFile
     = Some (Addr_String demoEnv
               (ip (hd (Addresses (Interface (Server (demoVpn [demoClient ''a..b'' (AddrFrom4 10 0 0 2)]))))))
             @ '' server.pivpn'' @ [CHR 0x0A]
             @ concat (map (\<lambda>c. Addr_String demoEnv (ip (hd (Addresses (Interface c)))) @ '' ''
                                 @ DNSName c @ ''.pivpn'' @ [CHR 0x0A])
                 (Clients (demoVpn [demoClient ''a..b'' (AddrFrom4 10 0 0 2)]))))
   \<and> DNSName (demoClient ''a..b'' (AddrFrom4 10 0 0 2)) = ''a-b''"
proof -
  let ?c = "demoClient ''a..b'' (AddrFrom4 10 0 0 2)"
  let ?t = "demoVpn [?c]"
  let ?fs = "\<lparr>files = [(pivpnPiholeHostFile, [])], unwritable = [], unownable = []\<rparr>"
  let ?fs' = "\<lparr>files = [(pivpnPiholeHostFile,
      ''10.0.0.1 server.pivpn'' @ [CHR 0x0A] @ ''10.0.0.2 a-b.pivpn'' @ [CHR 0x0A])],
      unwritable = [], unownable = []\<rparr>"
  have h1: "SyncPihole demoEnv ?t ?fs = Inr (None, ?fs')"
    by (simp add: SyncPihole_def demoVpn_def demoClient_def WriteFile_def index0_def
        zeroInterface_def PrefixFrom_def withoutZone_def Is6_def AddrFrom4_10_0_0_2
        AddrFrom4_10_0_0_1 demoEnv_def Addr4_String_10_0_0_2 Addr4_String_10_0_0_1
        DNSName_def dnsChar_def isAlnum_def isDigit_def)
  have h2: "map_of (files ?fs) pivpnPiholeHostFile \<noteq> None" by simp
  have c: "?c \<in> set (Clients ?t)" by (simp add: demoVpn_def)
  have n: "Config.Name ?c = ''a'' @ ''..'' @ ''b'' \<and> ''..'' \<noteq> []
      \<and> (\<forall>x \<in> set ''..''. \<not> dnsChar x)
      \<and> (''a'' = [] \<or> dnsChar (last ''a'')) \<and> (''b'' = [] \<or> dnsChar (hd ''b''))"
    by (simp add: demoClient_def dnsChar_def isAlnum_def isDigit_def)
  note res = pihole_name_runs [OF h1 h2]
  from res c n
  have "DNSName ?c = invalidDNSChars_Replace ''a'' @ ''-'' @ invalidDNSChars_Replace ''b''"
    by blast
  then have "DNSName ?c = ''a-b''"
    by (simp add: dnsChar_def isAlnum_def isDigit_def)
  moreover from res have "map_of (files ?fs') pivpnPiholeHostFile
     = Some (Addr_String demoEnv (ip (hd (Addresses (Interface (Server ?t)))))
             @ '' server.pivpn'' @ [CHR 0x0A]
             @ concat (map (\<lambda>c. Addr_String demoEnv (ip (hd (Addresses (Interface c)))) @ '' ''
                                 @ DNSName c @ ''.pivpn'' @ [CHR 0x0A]) (Clients ?t)))"
    by blast
  ultimately show ?thesis by simp
qed

text \<open>
  The claim as stated fails: the two characters \<open>..\<close> of the name \<open>a..b\<close> give one
  hyphen in the line of the host file, where a replacement character by character
  gives two.
\<close>

theorem pihole_single_hyphen:
  "piholeLines demoEnv
     [\<lparr>Config.Name = ''a..b'',
       Interface = zeroInterface\<lparr>Addresses := [PrefixFrom (AddrFrom4 10 0 0 2) 24]\<rparr>,
       Peers = [], Client.Disabled = False, Client.CreationDate = time_Unix 0\<rparr>]
   = Inr (''10.0.0.2 a-b.pivpn'' @ [CHR 0x0A])
   \<and> map (\<lambda>x. if dnsChar x then x else CHR ''-'') ''a..b'' = ''a--b''"
  by (simp add: index0_def zeroInterface_def PrefixFrom_def withoutZone_def Is6_def
      AddrFrom4_10_0_0_2 demoEnv_def Addr4_String_10_0_0_2 DNSName_def replace_a_b
      dnsChar_def isAlnum_def isDigit_def)

subsection \<open>Names that AddClient rejects\<close>

lemma nonDigit_iff:
  "list_all nameChar s \<Longrightarrow> clientNameNonDigitRE s = (\<exists>c \<in> set s. \<not> isDigit c)"
  by (induction s) auto

text \<open>
  C9. \<open>AddClient\<close> returns an error, with the state and the files as they were, for a
  name that is not 1 to 15 characters of letters, digits, \<open>.\<close>, \<open>@\<close>, \<open>_\<close> and
  \<open>-\<close>, for a name of digits only, for the name \<open>server\<close>, and for the name of a
  client that exists.
\<close>

theorem addClient_rejects:
  assumes "\<not> (1 \<le> length name \<and> length name \<le> 15 \<and> (\<forall>c \<in> set name. nameChar c))
      \<or> (\<forall>c \<in> set name. isDigit c)
      \<or> name = ''server''
      \<or> (\<exists>c \<in> set (Clients t). Config.Name c = name)"
  shows "\<exists>err. AddClient E keys now t fs name = Some (Inr (Some err, t, fs))"
proof -
  have "rejectName t name \<noteq> None"
    using assms nonDigit_iff [of name]
    by (auto simp: rejectName_def clientNameRE_def list_all_iff list_ex_iff)
  then show ?thesis by (auto simp: AddClient_def)
qed

theorem addClient_rejects_witness:
  "\<exists>err. AddClient demoEnv \<lparr>Keys.Name = ''12345'', PrivateKey = replicate 32 1, PresharedKey = replicate 32 2\<rparr>
      (time_Unix 1700000000) (demoVpn []) \<lparr>files = [], unwritable = [], unownable = []\<rparr> ''12345''
    = Some (Inr (Some err, demoVpn [], \<lparr>files = [], unwritable = [], unownable = []\<rparr>))"
proof -
  have h: "\<not> (1 \<le> length ''12345'' \<and> length ''12345'' \<le> 15 \<and> (\<forall>c \<in> set ''12345''. nameChar c))
      \<or> (\<forall>c \<in> set ''12345''. isDigit c)
      \<or> ''12345'' = ''server''
      \<or> (\<exists>c \<in> set (Clients (demoVpn [])). Config.Name c = ''12345'')"
    by (simp add: isDigit_def)
  show ?thesis by (rule addClient_rejects [OF h])
qed

subsection \<open>Duplicate names in the registry\<close>

lemma AsMap_loop_panics:
  "(\<exists>x \<in> set l. m (ClientInfo.Name x) \<noteq> None) \<or> \<not> distinct (map ClientInfo.Name l)
   \<Longrightarrow> AsMap_loop m l = Inl (Panic ''duplicate name in client list'')"
proof (induction l arbitrary: m)
  case Nil
  then show ?case by simp
next
  case (Cons a l)
  show ?case
  proof (cases "m (ClientInfo.Name a) = None")
    case False
    then show ?thesis by simp
  next
    case True
    have pre: "(\<exists>x \<in> set l. (m(ClientInfo.Name a \<mapsto> a)) (ClientInfo.Name x) \<noteq> None)
        \<or> \<not> distinct (map ClientInfo.Name l)"
      using Cons.prems True by auto
    have IH: "AsMap_loop (m(ClientInfo.Name a \<mapsto> a)) l
        = Inl (Panic ''duplicate name in client list'')"
      using pre by (rule Cons.IH)
    have step: "AsMap_loop m (a # l) = AsMap_loop (m(ClientInfo.Name a \<mapsto> a)) l"
      using True by simp
    show ?thesis unfolding step by (rule IH)
  qed
qed

text \<open>
  C10. When the registry file parses to a list in which a name occurs twice, \<open>AsMap\<close>
  panics, and so does \<open>LoadVpnWithLocations\<close>, which has read the settings and the
  tunnel file by then: the load ends in the panic, not in an error.
\<close>

theorem load_duplicate_panics:
  assumes "Open fs pivpnSetupVars = Inr setupVarsFile"
    and "LoadConfig E setupVarsFile = Inr pivpnConf"
    and "Open fs (filepath_Join E tunnelDir (name @ ''.conf'')) = Inr tunnelConfFile"
    and "ParseConfig E tunnelConfFile name = Some (Inr tunnelConf)"
    and "Open fs (filepath_Join E cdir ''clients.txt'') = Inr clientsFile"
    and "ParseClientList clientsFile = Inr clients"
    and "\<not> distinct (map ClientInfo.Name clients)"
  shows "AsMap clients = Inl (Panic ''duplicate name in client list'')
    \<and> LoadVpnWithLocations E fs name pivpnSetupVars tunnelDir cdir kdir
        = Some (Inl (Panic ''duplicate name in client list''))"
proof -
  have "AsMap clients = Inl (Panic ''duplicate name in client list'')"
    using assms(7) by (simp add: AsMap_def AsMap_loop_panics)
  then show ?thesis
    using assms(1-6) by (simp add: LoadVpnWithLocations_def)
qed

text \<open>The settings, a tunnel file and a registry with the name \<open>alice\<close> twice.\<close>

lemma demoKey_text: "Key_String demoKey = ''AQIDBAUGBwgJCgsMDQ4PEBESExQVFhcYGRobHB0eHyA=''"
  by code_simp

lemma demoKey_parse: "ParseKeyBase64 ''AQIDBAUGBwgJCgsMDQ4PEBESExQVFhcYGRobHB0eHyA='' = Inr demoKey"
  by code_simp

lemma demo_tunnel:
  "ParseConfig demoEnv (''[Interface]'' @ [CHR 0x0A]
      @ ''PrivateKey = AQIDBAUGBwgJCgsMDQ4PEBESExQVFhcYGRobHB0eHyA='' @ [CHR 0x0A]) ''wg0''
   = Some (Inr \<lparr>Config.Name = ''wg0'', Interface = zeroInterface\<lparr>Interface.PrivateKey := demoKey\<rparr>,
                 Peers = []\<rparr>)"
  by code_simp

lemma demo_line_split:
  "spacesRE_Split ''alice           AQIDBAUGBwgJCgsMDQ4PEBESExQVFhcYGRobHB0eHyA= 1700000000  167772162''
   = [''alice'', ''AQIDBAUGBwgJCgsMDQ4PEBESExQVFhcYGRobHB0eHyA='', ''1700000000'', ''167772162'']"
  by code_simp

lemma demo_time: "ParseInt ''1700000000'' = Inr 1700000000"
  by code_simp

lemma demo_ip: "ParseUint ''167772162'' 32 = Inr 167772162"
  by code_simp

lemma int2ip_10_0_0_2: "int2ip 167772162 = AddrFrom4 10 0 0 2"
  by (simp add: int2ip_def AddrFrom4_def)

lemma demo_line:
  "parseClientLine ''alice           AQIDBAUGBwgJCgsMDQ4PEBESExQVFhcYGRobHB0eHyA= 1700000000  167772162''
   = Inr \<lparr>ClientInfo.Name = ''alice'', ClientInfo.PublicKey = demoKey,
          ClientInfo.CreationDate = time_Unix 1700000000, IPAddr = AddrFrom4 10 0 0 2\<rparr>"
  unfolding parseClientLine_def demo_line_split
  by (simp add: demoKey_parse demo_time demo_ip int2ip_10_0_0_2)

lemma demo_conf:
  "LoadConfig demoEnv ''x''
   = Inr \<lparr>DNS = [AddrFrom4 10 0 0 1], Endpoint = \<lparr>Host = ''vpn.example.org'', Port = 51820\<rparr>,
          UserConfigPath = ''/home/pi/configs'',
          all = [''pivpnHOST'' \<mapsto> ''vpn.example.org'', ''pivpnPORT'' \<mapsto> ''51820'',
                 ''pivpnDNS1'' \<mapsto> ''10.0.0.1'', ''install_home'' \<mapsto> ''/home/pi'']\<rparr>"
proof -
  have a: "ParseAddr4 ''10.0.0.1'' = Some (AddrFrom4 10 0 0 1)"
    by (simp add: ParseAddr4_def octet_def ParseUint_def isDigit_def digitVal_def)
  have p: "ParseUint ''51820'' 16 = Inr 51820" by code_simp
  show ?thesis by (simp add: LoadConfig_def demoEnv_def a p)
qed

lemma demo_registry_lines:
  "scanLines demoRegistry
   = [''alice           AQIDBAUGBwgJCgsMDQ4PEBESExQVFhcYGRobHB0eHyA= 1700000000  167772162'',
      ''alice           AQIDBAUGBwgJCgsMDQ4PEBESExQVFhcYGRobHB0eHyA= 1700000000  167772162'']"
  by code_simp

lemma demo_registry:
  "ParseClientList demoRegistry
   = Inr [\<lparr>ClientInfo.Name = ''alice'', ClientInfo.PublicKey = demoKey,
            ClientInfo.CreationDate = time_Unix 1700000000, IPAddr = AddrFrom4 10 0 0 2\<rparr>,
          \<lparr>ClientInfo.Name = ''alice'', ClientInfo.PublicKey = demoKey,
            ClientInfo.CreationDate = time_Unix 1700000000, IPAddr = AddrFrom4 10 0 0 2\<rparr>]"
  unfolding ParseClientList_def demo_registry_lines by (simp add: demo_line)

theorem load_duplicate_panics_witness:
  "AsMap [\<lparr>ClientInfo.Name = ''alice'', ClientInfo.PublicKey = demoKey,
            ClientInfo.CreationDate = time_Unix 1700000000, IPAddr = AddrFrom4 10 0 0 2\<rparr>,
          \<lparr>ClientInfo.Name = ''alice'', ClientInfo.PublicKey = demoKey,
            ClientInfo.CreationDate = time_Unix 1700000000, IPAddr = AddrFrom4 10 0 0 2\<rparr>]
     = Inl (Panic ''duplicate name in client list'')
   \<and> LoadVpnWithLocations demoEnv demoFiles ''wg0'' pivpnConfigFile defaultTunnelDir
        defaultConfigsDir defaultKeysFilepath
     = Some (Inl (Panic ''duplicate name in client list''))"
proof -
  let ?alice = "\<lparr>ClientInfo.Name = ''alice'', ClientInfo.PublicKey = demoKey,
            ClientInfo.CreationDate = time_Unix 1700000000, IPAddr = AddrFrom4 10 0 0 2\<rparr>"
  have h1: "Open demoFiles pivpnConfigFile = Inr ''x''"
    by (simp add: Open_def demoFiles_def pivpnConfigFile_def)
  have h3: "Open demoFiles (filepath_Join demoEnv defaultTunnelDir (''wg0'' @ ''.conf''))
      = Inr (''[Interface]'' @ [CHR 0x0A]
          @ ''PrivateKey = AQIDBAUGBwgJCgsMDQ4PEBESExQVFhcYGRobHB0eHyA='' @ [CHR 0x0A])"
    by (simp add: Open_def demoFiles_def demoEnv_def defaultTunnelDir_def)
  have h5: "Open demoFiles (filepath_Join demoEnv defaultConfigsDir ''clients.txt'') = Inr demoRegistry"
    by (simp add: Open_def demoFiles_def demoEnv_def defaultConfigsDir_def)
  have h7: "\<not> distinct (map ClientInfo.Name [?alice, ?alice])" by simp
  show ?thesis
    by (rule load_duplicate_panics [OF h1 demo_conf h3 demo_tunnel h5 demo_registry h7])
qed

subsection \<open>The address of a new client\<close>

text \<open>
  \<open>Next\<close> on an IPv4 address whose last byte is not 255 adds one to that byte, so
  the search of \<open>AddClient\<close> walks \<open>10.0.0.2\<close>, \<open>10.0.0.3\<close>, ... up to
  \<open>10.0.0.255\<close>, all of them in \<open>10.0.0.1/24\<close>, and leaves the block at \<open>10.0.1.0\<close>.
\<close>

lemma low8_disjoint:
  fixes x :: "128 word" and b :: "8 word"
  assumes "take_bit 8 x = 0"
  shows "x AND ucast b = 0"
proof (rule bit_word_eqI)
  fix n assume "n < LENGTH(128)"
  have "bit (take_bit 8 x) n = False" using assms by simp
  then have "n < 8 \<Longrightarrow> \<not> bit x n" by (simp add: bit_take_bit_iff)
  then show "bit (x AND ucast b) n = bit (0::128 word) n"
    by (auto simp: bit_and_iff bit_ucast_iff dest: bit_imp_le_length)
qed

lemma low8_or_add:
  fixes x :: "128 word" and b :: "8 word"
  assumes "take_bit 8 x = 0"
  shows "x OR ucast b = x + ucast b"
  using word_plus_and_or [of x "ucast b"] low8_disjoint [OF assms, of b] by simp

lemma ucast_succ8:
  fixes b :: "8 word"
  assumes "b \<noteq> 255"
  shows "(ucast (b + 1) :: 128 word) = ucast b + 1"
proof -
  have "unat b \<noteq> unat (255 :: 8 word)" using assms by (simp add: word_unat_eq_iff)
  moreover have "unat b < 2 ^ 8" using unsigned_less [of b, where 'a = nat] by simp
  ultimately have lt: "unat b < 255" by simp
  then have 1: "unat (b + 1) = unat b + 1"
    using unat_add_lem [of b 1] by simp
  have 2: "unat (ucast b :: 128 word) = unat b"
    by (simp add: unsigned_ucast_eq take_bit_nat_eq_self_iff) (use lt in linarith)
  have 3: "unat (ucast b + 1 :: 128 word) = unat b + 1"
    using unat_add_lem [of "ucast b :: 128 word" 1] 2 lt by simp
  have 4: "unat (ucast (b + 1) :: 128 word) = unat (b + 1)"
    by (simp add: unsigned_ucast_eq take_bit_nat_eq_self_iff)
      (use unsigned_less [of "b + 1", where 'a = nat] in simp)
  show ?thesis by (simp add: word_unat_eq_iff 1 3 4)
qed

lemma AddrFrom4_high:
  "take_bit 8 (0xFFFF00000000 OR push_bit 24 (ucast (b0 :: 8 word)) OR push_bit 16 (ucast (b1 :: 8 word))
       OR push_bit 8 (ucast (b2 :: 8 word)) :: 128 word) = 0"
proof -
  have c: "(0xFFFF00000000 :: 128 word) = push_bit 32 0xFFFF" by simp
  show ?thesis
    unfolding c by (rule bit_word_eqI) (auto simp: bit_simps)
qed

lemma succ8_nonzero:
  fixes b :: "8 word"
  assumes "b \<noteq> 255"
  shows "b + 1 \<noteq> 0"
proof
  assume "b + 1 = 0"
  then have "b = -1" by (simp add: eq_neg_iff_add_eq_0)
  with assms show False by simp
qed

lemma low8_ucast:
  fixes x :: "128 word" and c :: "8 word"
  assumes "take_bit 8 x = 0"
  shows "(ucast (ucast (x OR ucast c) :: 32 word) :: 8 word) = c"
proof (rule bit_word_eqI)
  fix n assume n: "n < LENGTH(8)"
  have "bit (take_bit 8 x) n = False" using assms by simp
  with n have "\<not> bit x n" by (simp add: bit_take_bit_iff)
  with n show "bit (ucast (ucast (x OR ucast c) :: 32 word) :: 8 word) n = bit c n"
    by (auto simp: bit_simps)
qed

lemma Next_AddrFrom4:
  assumes "b3 \<noteq> 255"
  shows "Next (AddrFrom4 b0 b1 b2 b3) = AddrFrom4 b0 b1 b2 (b3 + 1)"
proof -
  let ?H = "0xFFFF00000000 OR push_bit 24 (ucast b0) OR push_bit 16 (ucast b1)
       OR push_bit 8 (ucast b2) :: 128 word"
  have "(?H OR ucast b3) + 1 = (?H + ucast b3) + 1"
    by (simp only: low8_or_add [OF AddrFrom4_high])
  also have "\<dots> = ?H + (ucast b3 + 1)" by (simp only: add.assoc)
  also have "\<dots> = ?H + ucast (b3 + 1)" by (simp only: ucast_succ8 [OF assms])
  also have "\<dots> = ?H OR ucast (b3 + 1)" by (simp only: low8_or_add [OF AddrFrom4_high])
  finally have step: "(?H OR ucast b3) + 1 = ?H OR ucast (b3 + 1)" .
  have nz: "(ucast (?H OR ucast (b3 + 1)) :: 32 word) \<noteq> 0"
  proof
    assume "(ucast (?H OR ucast (b3 + 1)) :: 32 word) = 0"
    then have "(ucast (ucast (?H OR ucast (b3 + 1)) :: 32 word) :: 8 word) = 0" by simp
    then have "b3 + 1 = 0" by (simp only: low8_ucast [OF AddrFrom4_high])
    with succ8_nonzero [OF assms] show False by simp
  qed
  have A: "AddrFrom4 b0 b1 b2 b = \<lparr>addr = ?H OR ucast b, z = z4\<rparr>" for b
    by (simp add: AddrFrom4_def or.assoc)
  show ?thesis
    unfolding A Next_def by (simp add: Let_def Is4_def step nz)
qed

lemma Next_10_0_0_255: "Next (AddrFrom4 10 0 0 255) = AddrFrom4 10 0 1 0"
  by (simp add: Next_def AddrFrom4_def Is4_def)

lemma unat_succ8:
  fixes b :: "8 word"
  assumes "unat b < 255"
  shows "unat (b + 1) = unat b + 1"
  using unat_add_lem [of b 1] assms by simp

lemma nextUsable_run:
  "(\<forall>i < n. AddrFrom4 b0 b1 b2 (b + of_nat i) \<in> set ips) \<Longrightarrow> unat b + n \<le> 255
   \<Longrightarrow> nextUsable ips netblock (AddrFrom4 b0 b1 b2 b)
       = nextUsable ips netblock (AddrFrom4 b0 b1 b2 (b + of_nat n))"
proof (induction n arbitrary: b)
  case 0
  then show ?case by simp
next
  case (Suc n)
  from Suc.prems(2) have lt: "unat b < 255" by simp
  then have ne: "b \<noteq> 255" by auto
  from Suc.prems(1) have here: "AddrFrom4 b0 b1 b2 b \<in> set ips" by force
  have "\<forall>i < n. AddrFrom4 b0 b1 b2 (b + 1 + of_nat i) \<in> set ips"
  proof (intro allI impI)
    fix i assume "i < n"
    then have "AddrFrom4 b0 b1 b2 (b + of_nat (Suc i)) \<in> set ips" using Suc.prems(1) by blast
    then show "AddrFrom4 b0 b1 b2 (b + 1 + of_nat i) \<in> set ips" by (simp add: add.assoc)
  qed
  moreover have "unat (b + 1) + n \<le> 255" using Suc.prems(2) unat_succ8 [OF lt] by simp
  ultimately have IH: "nextUsable ips netblock (AddrFrom4 b0 b1 b2 (b + 1))
      = nextUsable ips netblock (AddrFrom4 b0 b1 b2 (b + 1 + of_nat n))"
    by (rule Suc.IH)
  have "nextUsable ips netblock (AddrFrom4 b0 b1 b2 b)
      = nextUsable ips netblock (Next (AddrFrom4 b0 b1 b2 b))"
    using here by (subst nextUsable.simps) simp
  also have "\<dots> = nextUsable ips netblock (AddrFrom4 b0 b1 b2 (b + 1))"
    by (simp only: Next_AddrFrom4 [OF ne])
  also note IH
  finally show ?case by (simp add: add.assoc)
qed

lemma nextUsable_free:
  "a \<notin> set ips \<Longrightarrow> nextUsable ips netblock a
     = (if \<not> Contains netblock a
        then Some (Inl (Errorf ''unable to add client: tunnel as no usable IP addresses left'' []))
        else Some (Inr a))"
  by (subst nextUsable.simps) simp

lemma netblock_ip: "Next (ip (PrefixFrom (AddrFrom4 10 0 0 1) 24)) = AddrFrom4 10 0 0 2"
  by (simp add: PrefixFrom_def withoutZone_def Is6_def Next_def AddrFrom4_def Is4_def)

lemma netblock_Bits: "Bits (PrefixFrom (AddrFrom4 10 0 0 1) 24) = 24"
  by (simp add: PrefixFrom_def Bits_def isZero_def BitLen_def AddrFrom4_def)

lemma netblock_Contains:
  "Contains (PrefixFrom (AddrFrom4 10 0 0 1) 24) (AddrFrom4 10 0 0 4)"
  "Contains (PrefixFrom (AddrFrom4 10 0 0 1) 24) (AddrFrom4 10 0 0 255)"
  "\<not> Contains (PrefixFrom (AddrFrom4 10 0 0 1) 24) (AddrFrom4 10 0 1 0)"
  by (simp_all add: Contains_def PrefixFrom_def Prefix_IsValid_def hasZone_def isZero_def
      BitLen_def withoutZone_def Is6_def Is4_def Bits_def AddrFrom4_def)

lemma scan_to:
  assumes held: "\<forall>k \<in> {2..<m}. AddrFrom4 10 0 0 (of_nat k) \<in> set ips" and m: "2 \<le> m" "m \<le> 255"
  shows "nextUsable ips netblock (AddrFrom4 10 0 0 2) = nextUsable ips netblock (AddrFrom4 10 0 0 (of_nat m))"
proof -
  have "\<forall>i < m - 2. AddrFrom4 10 0 0 (2 + of_nat i) \<in> set ips"
  proof (intro allI impI)
    fix i assume "i < m - 2"
    then have "2 + i \<in> {2..<m}" by auto
    with held have "AddrFrom4 10 0 0 (of_nat (2 + i)) \<in> set ips" by blast
    then show "AddrFrom4 10 0 0 (2 + of_nat i) \<in> set ips" by simp
  qed
  moreover have "unat (2 :: 8 word) + (m - 2) \<le> 255" using m by simp
  ultimately have "nextUsable ips netblock (AddrFrom4 10 0 0 2)
      = nextUsable ips netblock (AddrFrom4 10 0 0 (2 + of_nat (m - 2)))"
    by (rule nextUsable_run)
  moreover have "(2 + of_nat (m - 2) :: 8 word) = of_nat m"
    using m by (metis of_nat_numeral of_nat_add le_add_diff_inverse)
  ultimately show ?thesis by simp
qed

lemma addClient_scan:
  assumes "Addresses (Interface (Server t)) = PrefixFrom (AddrFrom4 10 0 0 1) 24 # others"
    and "clientIPs (Clients t) = Inr ips"
    and "rejectName t name = None"
  shows "(AddrFrom4 10 0 0 2 \<in> set ips \<and> AddrFrom4 10 0 0 3 \<in> set ips \<and> AddrFrom4 10 0 0 4 \<notin> set ips
      \<longrightarrow> AddClient E keys now t fs name
            = Some (saveClient E keys t fs name
                (newClient E keys now t name (AddrFrom4 10 0 0 4) (PrefixFrom (AddrFrom4 10 0 0 1) 24)))
          \<and> Addresses (Interface
                (newClient E keys now t name (AddrFrom4 10 0 0 4) (PrefixFrom (AddrFrom4 10 0 0 1) 24)))
            = [PrefixFrom (AddrFrom4 10 0 0 4) 24])
    \<and> ((\<forall>k \<in> {2..<255}. AddrFrom4 10 0 0 (of_nat k) \<in> set ips) \<and> AddrFrom4 10 0 0 255 \<notin> set ips
      \<longrightarrow> AddClient E keys now t fs name
            = Some (saveClient E keys t fs name
                (newClient E keys now t name (AddrFrom4 10 0 0 255) (PrefixFrom (AddrFrom4 10 0 0 1) 24))))
    \<and> ((\<forall>k \<in> {2..<256}. AddrFrom4 10 0 0 (of_nat k) \<in> set ips) \<and> AddrFrom4 10 0 1 0 \<notin> set ips
      \<longrightarrow> AddClient E keys now t fs name
            = Some (Inr (Some (Errorf ''unable to add client: tunnel as no usable IP addresses left'' []),
                t, fs)))"
proof (intro conjI impI)
  let ?nb = "PrefixFrom (AddrFrom4 10 0 0 1) 24"
  have start: "AddClient E keys now t fs name
      = (case nextUsable ips ?nb (AddrFrom4 10 0 0 2) of
           None \<Rightarrow> None
         | Some (Inl err) \<Rightarrow> Some (Inr (Some err, t, fs))
         | Some (Inr a) \<Rightarrow> Some (saveClient E keys t fs name (newClient E keys now t name a ?nb)))"
    by (simp add: AddClient_def assms index0_def netblock_ip)
  {
    assume h: "AddrFrom4 10 0 0 2 \<in> set ips \<and> AddrFrom4 10 0 0 3 \<in> set ips \<and> AddrFrom4 10 0 0 4 \<notin> set ips"
    have "\<forall>k \<in> {2..<4}. AddrFrom4 10 0 0 (of_nat k) \<in> set ips"
    proof
      fix k :: nat assume "k \<in> {2..<4}"
      then have "k = 2 \<or> k = 3" by auto
      with h show "AddrFrom4 10 0 0 (of_nat k) \<in> set ips" by auto
    qed
    then have "nextUsable ips ?nb (AddrFrom4 10 0 0 2) = nextUsable ips ?nb (AddrFrom4 10 0 0 (of_nat 4))"
      by (rule scan_to) simp_all
    also have "\<dots> = Some (Inr (AddrFrom4 10 0 0 4))"
      using h by (simp add: nextUsable_free netblock_Contains)
    finally show "AddClient E keys now t fs name
        = Some (saveClient E keys t fs name (newClient E keys now t name (AddrFrom4 10 0 0 4) ?nb))"
      by (simp add: start)
    show "Addresses (Interface (newClient E keys now t name (AddrFrom4 10 0 0 4) ?nb))
        = [PrefixFrom (AddrFrom4 10 0 0 4) 24]"
      by (simp add: newClient_def netblock_Bits)
  }
  {
    assume h: "(\<forall>k \<in> {2..<255}. AddrFrom4 10 0 0 (of_nat k) \<in> set ips) \<and> AddrFrom4 10 0 0 255 \<notin> set ips"
    then have "nextUsable ips ?nb (AddrFrom4 10 0 0 2) = nextUsable ips ?nb (AddrFrom4 10 0 0 (of_nat 255))"
      by (intro scan_to) simp_all
    also have "\<dots> = Some (Inr (AddrFrom4 10 0 0 255))"
      using h by (simp add: nextUsable_free netblock_Contains)
    finally show "AddClient E keys now t fs name
        = Some (saveClient E keys t fs name (newClient E keys now t name (AddrFrom4 10 0 0 255) ?nb))"
      by (simp add: start)
  }
  {
    assume h: "(\<forall>k \<in> {2..<256}. AddrFrom4 10 0 0 (of_nat k) \<in> set ips) \<and> AddrFrom4 10 0 1 0 \<notin> set ips"
    then have "\<forall>k \<in> {2..<255}. AddrFrom4 10 0 0 (of_nat k) \<in> set ips" by simp
    then have "nextUsable ips ?nb (AddrFrom4 10 0 0 2) = nextUsable ips ?nb (AddrFrom4 10 0 0 (of_nat 255))"
      by (intro scan_to) simp_all
    also have "\<dots> = nextUsable ips ?nb (Next (AddrFrom4 10 0 0 255))"
    proof -
      have "AddrFrom4 10 0 0 (of_nat 255) \<in> set ips" using h by (simp del: of_nat_numeral)
      then show ?thesis by (subst nextUsable.simps) simp
    qed
    also have "\<dots> = Some (Inl (Errorf ''unable to add client: tunnel as no usable IP addresses left'' []))"
      using h by (simp add: Next_10_0_0_255 nextUsable_free netblock_Contains)
    finally show "AddClient E keys now t fs name
        = Some (Inr (Some (Errorf ''unable to add client: tunnel as no usable IP addresses left'' []), t, fs))"
      by (simp add: start)
  }
qed

lemma AddrFrom4_low: "(ucast (addr (AddrFrom4 b0 b1 b2 b3)) :: 8 word) = b3"
proof (rule bit_word_eqI)
  fix n assume n: "n < LENGTH(8)"
  let ?H = "0xFFFF00000000 OR push_bit 24 (ucast b0) OR push_bit 16 (ucast b1)
       OR push_bit 8 (ucast b2) :: 128 word"
  have A: "addr (AddrFrom4 b0 b1 b2 b3) = ?H OR ucast b3"
    by (simp add: AddrFrom4_def or.assoc)
  have "take_bit 8 ?H = 0" by (rule AddrFrom4_high)
  then have "bit (take_bit 8 ?H) n = bit (0 :: 128 word) n" by (simp only:)
  then have "(n < 8 \<and> bit ?H n) = False" by (simp only: bit_take_bit_iff bit_0_eq bot_apply bot_bool_def)
  moreover from n have "n < 8" by simp
  ultimately have "\<not> bit ?H n" by blast
  with n show "bit (ucast (addr (AddrFrom4 b0 b1 b2 b3)) :: 8 word) n = bit b3 n"
    unfolding A by (auto simp: bit_simps)
qed

lemma AddrFrom4_bit8: "bit (addr (AddrFrom4 10 0 b2 b3)) 8 = bit b2 0"
  by (auto simp: AddrFrom4_def bit_simps dest: bit_imp_le_length)

lemma AddrFrom4_other_block: "AddrFrom4 10 0 0 b \<noteq> AddrFrom4 10 0 1 0"
proof
  assume "AddrFrom4 10 0 0 b = AddrFrom4 10 0 1 0"
  then have "bit (addr (AddrFrom4 10 0 0 b)) 8 = bit (addr (AddrFrom4 10 0 1 0)) 8" by simp
  then show False by (simp only: AddrFrom4_bit8) simp
qed

lemma PrefixFrom_ip4: "ip (PrefixFrom (AddrFrom4 b0 b1 b2 b3) n) = AddrFrom4 b0 b1 b2 b3"
  by (simp add: PrefixFrom_def withoutZone_def Is6_def AddrFrom4_def)

lemma PrefixFrom_z4: "z (ip (PrefixFrom (AddrFrom4 b0 b1 b2 b3) n)) = z4"
  by (simp add: PrefixFrom_ip4) (simp add: AddrFrom4_def)

lemma clientIPs_demo:
  "clientIPs (map (\<lambda>k. demoClient (f k) (AddrFrom4 10 0 0 (of_nat k))) ks)
   = Inr (map (\<lambda>k. AddrFrom4 10 0 0 (of_nat k)) ks)"
  by (induction ks) (simp_all add: demoClient_def index0_def zeroInterface_def PrefixFrom_ip4)

lemma ToClientInfoList_ok:
  "\<forall>c \<in> set cs. \<exists>p ps. Addresses (Interface c) = p # ps \<and> z (ip p) = z4
   \<Longrightarrow> \<exists>l. ToClientInfoList E cs = Inr l \<and> (\<forall>i \<in> set l. z (IPAddr i) = z4)"
  by (induction cs) (auto simp: index0_def)

lemma ClientInfoList_Export_ok:
  "\<forall>i \<in> set l. z (IPAddr i) = z4 \<Longrightarrow> \<exists>d. ClientInfoList_Export l = Inr d"
  by (induction l) (auto simp: exportClientLine_def ip2int_def As4_def)

lemma SyncClients_ok:
  assumes "\<forall>c \<in> set (Clients t). \<exists>p ps. Addresses (Interface c) = p # ps \<and> z (ip p) = z4"
    and "unwritable fs = []"
  shows "\<exists>d. SyncClients E t fs
    = Inr (None, fs\<lparr>files := (filepath_Join E (configsDir t) ''clients.txt'', d)
             # filter (\<lambda>entry. fst entry \<noteq> filepath_Join E (configsDir t) ''clients.txt'') (files fs)\<rparr>)"
proof -
  from ToClientInfoList_ok [OF assms(1)] obtain l where
    l: "ToClientInfoList E (Clients t) = Inr l" "\<forall>i \<in> set l. z (IPAddr i) = z4" by blast
  from ClientInfoList_Export_ok [OF l(2)] obtain d where d: "ClientInfoList_Export l = Inr d" by blast
  show ?thesis by (rule exI [of _ d]) (simp add: SyncClients_def l d WriteFile_def assms(2))
qed

lemma demoClients_z4:
  "\<forall>c \<in> set (demoClients ks). \<exists>p ps. Addresses (Interface c) = p # ps \<and> z (ip p) = z4"
  by (auto simp: demoClients_def demoClient_def zeroInterface_def PrefixFrom_z4)

lemma saveClient_demo:
  fixes b :: byte and now :: Time and ks :: "nat list"
  defines "c \<equiv> newClient demoEnv demoKeys now (demoVpn (demoClients ks)) ''carol''
                  (AddrFrom4 10 0 0 b) (PrefixFrom (AddrFrom4 10 0 0 1) 24)"
  shows "\<exists>t' fs'. saveClient demoEnv demoKeys (demoVpn (demoClients ks)) emptyFiles ''carol'' c
            = Inr (None, t', fs')
          \<and> Clients t' = demoClients ks @ [c]"
proof -
  let ?t = "demoVpn (demoClients ks)"
  let ?fs2 = "\<lparr>files = [(''/etc/wireguard/keys/carol_psk'', Key_String demoKey),
                        (''/etc/wireguard/keys/carol_pub'', Key_String (map (\<lambda>b. b XOR 0x55) demoKey)),
                        (''/etc/wireguard/keys/carol_priv'', Key_String demoKey),
                        (''/etc/wireguard/configs/carol.conf'', Export demoEnv c)],
               unwritable = [], unownable = []\<rparr>"
  have c4: "Addresses (Interface c) = [PrefixFrom (AddrFrom4 10 0 0 b) 24]"
    by (simp add: c_def newClient_def netblock_Bits)
  have w1: "WriteFile emptyFiles (filepath_Join demoEnv (configsDir ?t) (''carol'' @ ''.conf'')) (Export demoEnv c)
      = Inr \<lparr>files = [(''/etc/wireguard/configs/carol.conf'', Export demoEnv c)],
              unwritable = [], unownable = []\<rparr>"
    by (simp add: WriteFile_def emptyFiles_def demoEnv_def demoVpn_def)
  have k: "saveKeys demoEnv demoKeys ?t
      \<lparr>files = [(''/etc/wireguard/configs/carol.conf'', Export demoEnv c)],
        unwritable = [], unownable = []\<rparr> ''carol'' = (None, ?fs2)"
    by (simp add: saveKeys_def saveKey_def WriteFile_def Chown_def demoEnv_def demoVpn_def demoKeys_def)
  let ?t1 = "?t\<lparr>Clients := Clients ?t @ [c]\<rparr>"
  have "\<forall>x \<in> set (Clients ?t1). \<exists>p ps. Addresses (Interface x) = p # ps \<and> z (ip p) = z4"
    using demoClients_z4 [of ks] by (auto simp: demoVpn_def c4 PrefixFrom_z4)
  from SyncClients_ok [OF this, of ?fs2 demoEnv] obtain d where
    sc: "SyncClients demoEnv ?t1 ?fs2
      = Inr (None, ?fs2\<lparr>files := (filepath_Join demoEnv (configsDir ?t1) ''clients.txt'', d)
             # filter (\<lambda>entry. fst entry \<noteq> filepath_Join demoEnv (configsDir ?t1) ''clients.txt'') (files ?fs2)\<rparr>)"
    by auto
  have tp: "\<exists>p. ToPeer demoEnv c = Inr p"
  proof -
    have "Peers c \<noteq> []" by (simp add: c_def newClient_def)
    then show ?thesis by (cases "Peers c") (simp_all add: ToPeer_def index0_def c4)
  qed
  then obtain p where p: "ToPeer demoEnv c = Inr p" by blast
  show ?thesis
    unfolding saveClient_def w1 Let_def
    apply (simp only: sum.case k prod.case option.case sc p)
    apply (simp add: SyncTunnel_def SyncPihole_def WriteFile_def demoEnv_def demoVpn_def
        pivpnPiholeHostFile_def)
    done
qed


lemma demoVpn_netblock:
  "Addresses (Interface (Server (demoVpn cs))) = PrefixFrom (AddrFrom4 10 0 0 1) 24 # []"
  by (simp add: demoVpn_def zeroInterface_def)

lemma demoClients_ips:
  "clientIPs (Clients (demoVpn (demoClients ks))) = Inr (map (\<lambda>k. AddrFrom4 10 0 0 (of_nat k)) ks)"
  by (simp add: demoVpn_def demoClients_def clientIPs_demo)

lemma demo_accepts_carol: "rejectName (demoVpn (demoClients ks)) ''carol'' = None"
  by (simp add: rejectName_def clientNameRE_def nameChar_def isAlnum_def isDigit_def
      demoVpn_def demoClients_def demoClient_def list_ex_iff)

text \<open>
  C4, as amended. The server's first address is \<open>10.0.0.1/24\<close>, the name is
  accepted and every client has an address. When clients hold \<open>10.0.0.2\<close> and
  \<open>10.0.0.3\<close> and none holds \<open>10.0.0.4\<close>, \<open>AddClient\<close> goes on with a new client
  of address \<open>10.0.0.4/24\<close>. When clients hold \<open>10.0.0.2\<close> to \<open>10.0.0.254\<close>, so
  that with the server's all 254 host addresses are held, and none holds
  \<open>10.0.0.255\<close>, the call does not fail: it goes on with a new client of address
  \<open>10.0.0.255\<close>. The error of exhaustion comes when \<open>10.0.0.255\<close> is held as well
  (and no client holds \<open>10.0.1.0\<close>, where the search then stops), with the state and
  the files untouched.
\<close>

theorem addClient_allocates:
  assumes "Addresses (Interface (Server t)) = PrefixFrom (AddrFrom4 10 0 0 1) 24 # others"
    and "clientIPs (Clients t) = Inr ips"
    and "rejectName t name = None"
  shows "(AddrFrom4 10 0 0 2 \<in> set ips \<and> AddrFrom4 10 0 0 3 \<in> set ips \<and> AddrFrom4 10 0 0 4 \<notin> set ips
      \<longrightarrow> AddClient E keys now t fs name
            = Some (saveClient E keys t fs name
                (newClient E keys now t name (AddrFrom4 10 0 0 4) (PrefixFrom (AddrFrom4 10 0 0 1) 24)))
          \<and> Addresses (Interface
                (newClient E keys now t name (AddrFrom4 10 0 0 4) (PrefixFrom (AddrFrom4 10 0 0 1) 24)))
            = [PrefixFrom (AddrFrom4 10 0 0 4) 24])
    \<and> ((\<forall>k \<in> {2..<255}. AddrFrom4 10 0 0 (of_nat k) \<in> set ips) \<and> AddrFrom4 10 0 0 255 \<notin> set ips
      \<longrightarrow> AddClient E keys now t fs name
            = Some (saveClient E keys t fs name
                (newClient E keys now t name (AddrFrom4 10 0 0 255) (PrefixFrom (AddrFrom4 10 0 0 1) 24))))
    \<and> ((\<forall>k \<in> {2..<256}. AddrFrom4 10 0 0 (of_nat k) \<in> set ips) \<and> AddrFrom4 10 0 1 0 \<notin> set ips
      \<longrightarrow> AddClient E keys now t fs name
            = Some (Inr (Some (Errorf ''unable to add client: tunnel as no usable IP addresses left'' []),
                t, fs)))"
  using assms by (rule addClient_scan)

theorem addClient_allocates_witness:
  "(\<exists>t' fs'. AddClient demoEnv demoKeys (time_Unix 0) (demoVpn (demoClients [2, 3])) emptyFiles ''carol''
        = Some (Inr (None, t', fs'))
      \<and> Clients t' = demoClients [2, 3]
          @ [newClient demoEnv demoKeys (time_Unix 0) (demoVpn (demoClients [2, 3])) ''carol''
               (AddrFrom4 10 0 0 4) (PrefixFrom (AddrFrom4 10 0 0 1) 24)])
   \<and> Addresses (Interface
        (newClient demoEnv demoKeys (time_Unix 0) (demoVpn (demoClients [2, 3])) ''carol''
           (AddrFrom4 10 0 0 4) (PrefixFrom (AddrFrom4 10 0 0 1) 24)))
     = [PrefixFrom (AddrFrom4 10 0 0 4) 24]
   \<and> AddClient demoEnv demoKeys (time_Unix 0) (demoVpn (demoClients [2..<256])) emptyFiles ''carol''
     = Some (Inr (Some (Errorf ''unable to add client: tunnel as no usable IP addresses left'' []),
          demoVpn (demoClients [2..<256]), emptyFiles))"
proof -
  let ?few = "demoVpn (demoClients [2, 3])"
  let ?all = "demoVpn (demoClients [2..<256])"
  have few: "AddrFrom4 10 0 0 2 \<in> set (map (\<lambda>k. AddrFrom4 10 0 0 (of_nat k)) [2, 3 :: nat])
      \<and> AddrFrom4 10 0 0 3 \<in> set (map (\<lambda>k. AddrFrom4 10 0 0 (of_nat k)) [2, 3 :: nat])
      \<and> AddrFrom4 10 0 0 4 \<notin> set (map (\<lambda>k. AddrFrom4 10 0 0 (of_nat k)) [2, 3 :: nat])"
    by (simp add: AddrFrom4_def)
  have all: "(\<forall>k \<in> {2..<256}. AddrFrom4 10 0 0 (of_nat k) \<in> set (map (\<lambda>k. AddrFrom4 10 0 0 (of_nat k)) [2..<256]))
      \<and> AddrFrom4 10 0 1 0 \<notin> set (map (\<lambda>k. AddrFrom4 10 0 0 (of_nat k)) [2..<256])"
    using AddrFrom4_other_block by (auto simp del: upt_rec_numeral) metis
  note few_res = addClient_allocates [OF demoVpn_netblock demoClients_ips demo_accepts_carol,
      of "[2, 3]" demoEnv demoKeys "time_Unix 0" emptyFiles]
  note all_res = addClient_allocates [OF demoVpn_netblock demoClients_ips demo_accepts_carol,
      of "[2..<256]" demoEnv demoKeys "time_Unix 0" emptyFiles]
  from few_res few have 1: "AddClient demoEnv demoKeys (time_Unix 0) ?few emptyFiles ''carol''
      = Some (saveClient demoEnv demoKeys ?few emptyFiles ''carol''
          (newClient demoEnv demoKeys (time_Unix 0) ?few ''carol'' (AddrFrom4 10 0 0 4)
             (PrefixFrom (AddrFrom4 10 0 0 1) 24)))"
    and 2: "Addresses (Interface
        (newClient demoEnv demoKeys (time_Unix 0) ?few ''carol'' (AddrFrom4 10 0 0 4)
           (PrefixFrom (AddrFrom4 10 0 0 1) 24)))
      = [PrefixFrom (AddrFrom4 10 0 0 4) 24]"
    by blast+
  from all_res all have 3: "AddClient demoEnv demoKeys (time_Unix 0) ?all emptyFiles ''carol''
      = Some (Inr (Some (Errorf ''unable to add client: tunnel as no usable IP addresses left'' []),
          ?all, emptyFiles))"
    by blast
  from saveClient_demo [where now = "time_Unix 0" and ks = "[2, 3]" and b = 4] 1 2 3 show ?thesis by simp
qed

text \<open>
  The claim as stated fails: with the server at \<open>10.0.0.1\<close> and 253 clients at
  \<open>10.0.0.2\<close> to \<open>10.0.0.254\<close>, all 254 host addresses are held, and \<open>AddClient\<close>
  returns no error and has added a client of address \<open>10.0.0.255\<close>, the broadcast
  address of the block.
\<close>

theorem addClient_takes_broadcast:
  "map (\<lambda>c. ip (hd (Addresses (Interface c)))) (Clients (demoVpn (demoClients [2..<255])))
     = map (\<lambda>k. AddrFrom4 10 0 0 (of_nat k)) [2..<255]
   \<and> (\<exists>t' fs'. AddClient demoEnv demoKeys (time_Unix 0) (demoVpn (demoClients [2..<255])) emptyFiles ''carol''
        = Some (Inr (None, t', fs'))
      \<and> length (Clients t') = 254
      \<and> Addresses (Interface (last (Clients t'))) = [PrefixFrom (AddrFrom4 10 0 0 255) 24])"
proof -
  let ?t = "demoVpn (demoClients [2..<255])"
  let ?ips = "map (\<lambda>k. AddrFrom4 10 0 0 (of_nat k)) [2..<255]"
  let ?c = "newClient demoEnv demoKeys (time_Unix 0) ?t ''carol'' (AddrFrom4 10 0 0 255)
      (PrefixFrom (AddrFrom4 10 0 0 1) 24)"
  have held: "\<forall>k \<in> {2..<255}. AddrFrom4 10 0 0 (of_nat k) \<in> set ?ips"
    by (auto simp del: upt_rec_numeral)
  have free: "AddrFrom4 10 0 0 255 \<notin> set ?ips"
  proof
    assume "AddrFrom4 10 0 0 255 \<in> set ?ips"
    then obtain k :: nat where k: "2 \<le> k" "k < 255" "AddrFrom4 10 0 0 255 = AddrFrom4 10 0 0 (of_nat k)"
      by (auto simp del: upt_rec_numeral)
    from k(3) have "(255 :: byte) = of_nat k" by (metis AddrFrom4_low)
    then have "unat (255 :: byte) = unat (of_nat k :: byte)" by simp
    with k(2) show False by (simp add: unat_of_nat)
  qed
  have 1: "map (\<lambda>c. ip (hd (Addresses (Interface c)))) (Clients ?t) = ?ips"
    by (simp add: demoVpn_def demoClients_def demoClient_def zeroInterface_def PrefixFrom_ip4 comp_def
        del: upt_rec_numeral)
  from addClient_scan [OF demoVpn_netblock demoClients_ips demo_accepts_carol,
      of "[2..<255]" demoEnv demoKeys "time_Unix 0" emptyFiles] held free
  have 2: "AddClient demoEnv demoKeys (time_Unix 0) ?t emptyFiles ''carol''
      = Some (saveClient demoEnv demoKeys ?t emptyFiles ''carol'' ?c)"
    by blast
  from saveClient_demo [where now = "time_Unix 0" and ks = "[2..<255]" and b = 255] obtain t' fs' where
    3: "saveClient demoEnv demoKeys ?t emptyFiles ''carol'' ?c = Inr (None, t', fs')"
      "Clients t' = demoClients [2..<255] @ [?c]"
    by blast
  have 4: "Addresses (Interface ?c) = [PrefixFrom (AddrFrom4 10 0 0 255) 24]"
    by (simp add: newClient_def netblock_Bits)
  have 5: "length (Clients t') = 254" by (simp add: 3(2) demoClients_def)
  from 1 2 3 4 5 show ?thesis by simp
qed

section \<open>Properties of the parser\<close>

subsection \<open>What a successful parse guarantees\<close>












end
